theory Spec2Isabelle
  imports Complex_Main "HOL-Library.Monad_Syntax"
begin

text \<open>
  The price extraction of the Philippine price tracker: the DA parser with its three
  region formats (\<^verbatim>\<open>da_parser.js\<close>), the DOE fuel parser (\<^verbatim>\<open>doe_parser.js\<close>), the DTI
  bulletin parser (\<^verbatim>\<open>scrapers/pdf/dti_parser.js\<close>) and the unit lexicon of
  \<^verbatim>\<open>utils/priceNormalizer.js\<close>, as functions of HOL.  The parsers are driven by regular
  expressions, so the development starts with JavaScript's strings, its backtracking
  matcher and its numbers; then come the parsers, and then what holds of them.
\<close>

section \<open>JavaScript strings\<close>

text \<open>
  A JavaScript string is modelled as a \<^typ>\<open>string\<close> whose characters are the code units
  0..255 (Latin-1).  The character classes below are the ones of ECMAScript restricted to
  that range: white space (what \<^verbatim>\<open>\s\<close> and \<^verbatim>\<open>trim\<close> use) is TAB, LF, VT, FF, CR, SPACE
  and NBSP.
\<close>

definition is_digit :: "char \<Rightarrow> bool" where
  "is_digit c = (48 \<le> (of_char c :: nat) \<and> (of_char c :: nat) \<le> 57)"

definition is_upper :: "char \<Rightarrow> bool" where
  "is_upper c = (65 \<le> (of_char c :: nat) \<and> (of_char c :: nat) \<le> 90)"

definition is_lower :: "char \<Rightarrow> bool" where
  "is_lower c = (97 \<le> (of_char c :: nat) \<and> (of_char c :: nat) \<le> 122)"

definition is_word :: "char \<Rightarrow> bool" where
  "is_word c = (is_digit c \<or> is_upper c \<or> is_lower c \<or> c = CHR ''_'')"

definition is_space :: "char \<Rightarrow> bool" where
  "is_space c = ((9 \<le> (of_char c :: nat) \<and> (of_char c :: nat) \<le> 13)
                 \<or> (of_char c :: nat) = 32 \<or> (of_char c :: nat) = 160)"

definition is_line_terminator :: "char \<Rightarrow> bool" where
  "is_line_terminator c = ((of_char c :: nat) = 10 \<or> (of_char c :: nat) = 13)"

text \<open>The letters of Latin-1 that have a lower-case partner in Latin-1, and the partners.\<close>

definition upper_letters :: "char list" where
  "upper_letters = ''ABCDEFGHIJKLMNOPQRSTUVWXYZ'' @
     [CHR 0xC0, CHR 0xC1, CHR 0xC2, CHR 0xC3, CHR 0xC4, CHR 0xC5, CHR 0xC6, CHR 0xC7,
      CHR 0xC8, CHR 0xC9, CHR 0xCA, CHR 0xCB, CHR 0xCC, CHR 0xCD, CHR 0xCE, CHR 0xCF,
      CHR 0xD0, CHR 0xD1, CHR 0xD2, CHR 0xD3, CHR 0xD4, CHR 0xD5, CHR 0xD6,
      CHR 0xD8, CHR 0xD9, CHR 0xDA, CHR 0xDB, CHR 0xDC, CHR 0xDD, CHR 0xDE]"

definition lower_letters :: "char list" where
  "lower_letters = ''abcdefghijklmnopqrstuvwxyz'' @
     [CHR 0xE0, CHR 0xE1, CHR 0xE2, CHR 0xE3, CHR 0xE4, CHR 0xE5, CHR 0xE6, CHR 0xE7,
      CHR 0xE8, CHR 0xE9, CHR 0xEA, CHR 0xEB, CHR 0xEC, CHR 0xED, CHR 0xEE, CHR 0xEF,
      CHR 0xF0, CHR 0xF1, CHR 0xF2, CHR 0xF3, CHR 0xF4, CHR 0xF5, CHR 0xF6,
      CHR 0xF8, CHR 0xF9, CHR 0xFA, CHR 0xFB, CHR 0xFC, CHR 0xFD, CHR 0xFE]"

definition lower_char :: "char \<Rightarrow> char" where
  "lower_char c = (case map_of (zip upper_letters lower_letters) c of Some d \<Rightarrow> d | None \<Rightarrow> c)"

definition upper_char :: "char \<Rightarrow> char" where
  "upper_char c = (case map_of (zip lower_letters upper_letters) c of Some d \<Rightarrow> d | None \<Rightarrow> c)"

text \<open>\<^verbatim>\<open>String.prototype.toLowerCase\<close>: on Latin-1 every character has a one-character
  lower case inside Latin-1.\<close>

definition toLowerCase :: "string \<Rightarrow> string" where
  "toLowerCase s = map lower_char s"

text \<open>\<^verbatim>\<open>String.prototype.toUpperCase\<close>: the sharp s (0xDF) becomes \<open>SS\<close>.  The upper case of
  the micro sign (0xB5) and of y with diaeresis (0xFF) lies outside Latin-1; they are left
  as they are.  The parsers call it only on text matched by ASCII letters, digits and
  white space.\<close>

definition toUpperCase :: "string \<Rightarrow> string" where
  "toUpperCase s = concat (map (\<lambda>c. if c = CHR 0xDF then ''SS'' else [upper_char c]) s)"

text \<open>\<^verbatim>\<open>String.prototype.trim\<close>.\<close>

definition trim :: "string \<Rightarrow> string" where
  "trim s = rev (dropWhile is_space (rev (dropWhile is_space s)))"

text \<open>\<^verbatim>\<open>s.startsWith(t)\<close> and \<^verbatim>\<open>s.includes(t)\<close>.\<close>

fun startsWith :: "string \<Rightarrow> string \<Rightarrow> bool" where
  "startsWith s [] = True"
| "startsWith [] (y # ys) = False"
| "startsWith (x # xs) (y # ys) = (x = y \<and> startsWith xs ys)"

fun str_includes :: "string \<Rightarrow> string \<Rightarrow> bool" where
  "str_includes [] t = (t = [])"
| "str_includes (x # xs) t = (startsWith (x # xs) t \<or> str_includes xs t)"

text \<open>\<^verbatim>\<open>s.replace(/\s+/g, ' ')\<close>: every maximal run of white space becomes one space.\<close>

primrec collapse_from :: "bool \<Rightarrow> string \<Rightarrow> string" where
  "collapse_from in_run [] = []"
| "collapse_from in_run (x # xs) =
     (if is_space x then (if in_run then collapse_from True xs else CHR '' '' # collapse_from True xs)
      else x # collapse_from False xs)"

definition collapse_spaces :: "string \<Rightarrow> string" where
  "collapse_spaces s = collapse_from False s"

text \<open>\<^verbatim>\<open>text.split('\n')\<close>: the pieces between line feeds; a string without a line feed
  (the empty one too) is one piece.\<close>

fun split_lines :: "string \<Rightarrow> string list" where
  "split_lines [] = [[]]"
| "split_lines (x # xs) =
     (if x = CHR 0x0A then [] # split_lines xs
      else (case split_lines xs of [] \<Rightarrow> [[x]] | l # ls \<Rightarrow> (x # l) # ls))"

text \<open>\<^verbatim>\<open>s.padStart(2, '0')\<close>.\<close>

definition padStart2 :: "string \<Rightarrow> string" where
  "padStart2 s = replicate (2 - length s) (CHR ''0'') @ s"


section \<open>Regular expressions\<close>

text \<open>
  The patterns of the parsers use character classes, concatenation, alternation, greedy
  and lazy repetition, capture groups and the anchors \<^verbatim>\<open>^\<close> and \<^verbatim>\<open>$\<close>.  The matcher
  below is the backtracking matcher of ECMAScript in continuation-passing style: a
  pattern is matched against the rest of the input and hands the position, the remaining
  input and the captures to its continuation; the first alternative whose continuation
  succeeds wins.
\<close>

datatype cset = Digit | WordCh | Space | Range char char | One char

datatype regex =
    In "cset list"            \<comment> \<open>a class \<^verbatim>\<open>[...]\<close>, \<^verbatim>\<open>\d\<close>, \<^verbatim>\<open>\w\<close>, \<^verbatim>\<open>\s\<close> or a literal character\<close>
  | NotIn "cset list"         \<comment> \<open>a negated class \<^verbatim>\<open>[^...]\<close>\<close>
  | AnyChar                   \<comment> \<open>\<^verbatim>\<open>.\<close>: any character but a line terminator\<close>
  | Eps
  | Bol                       \<comment> \<open>\<^verbatim>\<open>^\<close>\<close>
  | Eol                       \<comment> \<open>\<^verbatim>\<open>$\<close>\<close>
  | Seq regex regex
  | Alt regex regex
  | Star bool regex           \<comment> \<open>\<^verbatim>\<open>r*\<close> (\<open>True\<close>, greedy) or \<^verbatim>\<open>r*?\<close> (\<open>False\<close>, lazy)\<close>
  | Group nat regex           \<comment> \<open>capture group number \<open>n\<close>\<close>

text \<open>Membership of a character in a class item; \<open>ci\<close> is the flag \<^verbatim>\<open>i\<close>, under which two
  characters are the same when their upper cases are.\<close>

fun in_cset :: "bool \<Rightarrow> char \<Rightarrow> cset \<Rightarrow> bool" where
  "in_cset ci c Digit = is_digit c"
| "in_cset ci c WordCh = is_word c"
| "in_cset ci c Space = is_space c"
| "in_cset ci c (Range a b) =
     ((of_char a \<le> (of_char c :: nat) \<and> (of_char c :: nat) \<le> of_char b)
      \<or> (ci \<and> ((of_char a \<le> (of_char (lower_char c) :: nat) \<and> (of_char (lower_char c) :: nat) \<le> of_char b)
              \<or> (of_char a \<le> (of_char (upper_char c) :: nat) \<and> (of_char (upper_char c) :: nat) \<le> of_char b))))"
| "in_cset ci c (One a) = (c = a \<or> (ci \<and> upper_char c = upper_char a))"

definition in_class :: "bool \<Rightarrow> cset list \<Rightarrow> char \<Rightarrow> bool" where
  "in_class ci cs c = list_ex (in_cset ci c) cs"

type_synonym captures = "(nat \<times> string) list"

type_synonym 'a cont = "nat \<Rightarrow> string \<Rightarrow> captures \<Rightarrow> 'a option"

text \<open>Repetition.  An iteration that consumes nothing is rejected, as ECMAScript does, so
  at most \<open>length s\<close> iterations can follow one another: that is the fuel.\<close>

primrec star_iter :: "nat \<Rightarrow> bool \<Rightarrow> ('a cont \<Rightarrow> 'a cont) \<Rightarrow> 'a cont \<Rightarrow> 'a cont" where
  "star_iter 0 greedy f k pos s c = k pos s c"
| "star_iter (Suc n) greedy f k pos s c =
     (if greedy then
        (case f (\<lambda>pos' s' c'. if length s' < length s then star_iter n greedy f k pos' s' c' else None) pos s c of
           Some r \<Rightarrow> Some r
         | None \<Rightarrow> k pos s c)
      else
        (case k pos s c of
           Some r \<Rightarrow> Some r
         | None \<Rightarrow> f (\<lambda>pos' s' c'. if length s' < length s then star_iter n greedy f k pos' s' c' else None) pos s c))"

primrec rmatch :: "regex \<Rightarrow> bool \<Rightarrow> 'a cont \<Rightarrow> 'a cont" where
  "rmatch (In cs) ci k pos s c =
     (case s of [] \<Rightarrow> None | x # xs \<Rightarrow> if in_class ci cs x then k (Suc pos) xs c else None)"
| "rmatch (NotIn cs) ci k pos s c =
     (case s of [] \<Rightarrow> None | x # xs \<Rightarrow> if in_class ci cs x then None else k (Suc pos) xs c)"
| "rmatch AnyChar ci k pos s c =
     (case s of [] \<Rightarrow> None | x # xs \<Rightarrow> if is_line_terminator x then None else k (Suc pos) xs c)"
| "rmatch Eps ci k pos s c = k pos s c"
| "rmatch Bol ci k pos s c = (if pos = 0 then k pos s c else None)"
| "rmatch Eol ci k pos s c = (if s = [] then k pos s c else None)"
| "rmatch (Seq a b) ci k pos s c = rmatch a ci (rmatch b ci k) pos s c"
| "rmatch (Alt a b) ci k pos s c =
     (case rmatch a ci k pos s c of Some r \<Rightarrow> Some r | None \<Rightarrow> rmatch b ci k pos s c)"
| "rmatch (Star greedy a) ci k pos s c = star_iter (length s) greedy (rmatch a ci) k pos s c"
| "rmatch (Group n a) ci k pos s c =
     rmatch a ci (\<lambda>pos' s' c'. k pos' s' ((n, take (pos' - pos) s) # c')) pos s c"

text \<open>A match: where it starts and ends, its text (\<^verbatim>\<open>match[0]\<close>), the input after it and
  the captured groups (\<^verbatim>\<open>match[n]\<close>; a group that took no part is \<^verbatim>\<open>undefined\<close>, \<open>None\<close>).\<close>

record regmatch =
  mstart :: nat
  mend :: nat
  mtext :: string
  mrest :: string
  mcaps :: captures

definition grp :: "regmatch \<Rightarrow> nat \<Rightarrow> string option" where
  "grp m n = (if n = 0 then Some (mtext m) else map_of (mcaps m) n)"

definition match_here :: "regex \<Rightarrow> bool \<Rightarrow> nat \<Rightarrow> string \<Rightarrow> regmatch option" where
  "match_here r ci pos s =
     rmatch r ci (\<lambda>pos' s' c'. Some \<lparr>mstart = pos, mend = pos', mtext = take (pos' - pos) s,
                                      mrest = s', mcaps = c'\<rparr>) pos s []"

text \<open>The leftmost match at or after position \<open>pos\<close>, where \<open>s\<close> is the input from there on.\<close>

fun search :: "regex \<Rightarrow> bool \<Rightarrow> nat \<Rightarrow> string \<Rightarrow> regmatch option" where
  "search r ci pos [] = match_here r ci pos []"
| "search r ci pos (x # xs) =
     (case match_here r ci pos (x # xs) of
        Some m \<Rightarrow> Some m
      | None \<Rightarrow> search r ci (Suc pos) xs)"

text \<open>\<^verbatim>\<open>str.match(re)\<close> for a pattern without the flag \<^verbatim>\<open>g\<close>.\<close>

definition str_match :: "string \<Rightarrow> regex \<Rightarrow> bool \<Rightarrow> regmatch option" where
  "str_match s r ci = search r ci 0 s"

text \<open>Pattern building blocks.\<close>

definition chr :: "char \<Rightarrow> regex" where
  "chr c = In [One c]"

definition lit :: "string \<Rightarrow> regex" where
  "lit s = foldr (\<lambda>c r. Seq (chr c) r) s Eps"

definition digit :: regex where
  "digit = In [Digit]"

definition wordch :: regex where
  "wordch = In [WordCh]"

definition space :: regex where
  "space = In [Space]"

definition plus :: "regex \<Rightarrow> regex" where
  "plus r = Seq r (Star True r)"

definition star :: "regex \<Rightarrow> regex" where
  "star r = Star True r"

definition opt :: "regex \<Rightarrow> regex" where
  "opt r = Alt r Eps"

text \<open>\<^verbatim>\<open>\d+(?:\.\d{1,2})?\<close> and \<^verbatim>\<open>\d+\.\d{2}\<close>.\<close>

definition number :: regex where
  "number = Seq (plus digit) (opt (Seq (chr CHR ''.'') (Seq digit (opt digit))))"

definition number2 :: regex where
  "number2 = Seq (plus digit) (Seq (chr CHR ''.'') (Seq digit digit))"


text \<open>The number of capture groups of a pattern; \<^verbatim>\<open>match.length\<close> is one more.\<close>

primrec groups :: "regex \<Rightarrow> nat" where
  "groups (In cs) = 0"
| "groups (NotIn cs) = 0"
| "groups AnyChar = 0"
| "groups Eps = 0"
| "groups Bol = 0"
| "groups Eol = 0"
| "groups (Seq a b) = groups a + groups b"
| "groups (Alt a b) = groups a + groups b"
| "groups (Star g a) = groups a"
| "groups (Group n a) = Suc (groups a)"

text \<open>\<^verbatim>\<open>match.slice(1)\<close>: the captured groups 1 to n, in order.\<close>

definition match_slice1 :: "regex \<Rightarrow> regmatch \<Rightarrow> string option list" where
  "match_slice1 r m = map (grp m) [1 ..< Suc (groups r)]"

subsection \<open>What a match consumes\<close>

text \<open>The least number of characters a match of the pattern takes.\<close>

primrec minlen :: "regex \<Rightarrow> nat" where
  "minlen (In cs) = 1"
| "minlen (NotIn cs) = 1"
| "minlen AnyChar = 1"
| "minlen Eps = 0"
| "minlen Bol = 0"
| "minlen Eol = 0"
| "minlen (Seq a b) = minlen a + minlen b"
| "minlen (Alt a b) = min (minlen a) (minlen b)"
| "minlen (Star g a) = 0"
| "minlen (Group n a) = minlen a"

definition consumes :: "nat \<Rightarrow> ('a cont \<Rightarrow> 'a cont) \<Rightarrow> bool" where
  "consumes n f = (\<forall>k pos s c x. f k pos s c = Some x \<longrightarrow>
      (\<exists>t s' c'. s = t @ s' \<and> n \<le> length t \<and> k (pos + length t) s' c' = Some x))"

lemma consumesD:
  "consumes n f \<Longrightarrow> f k pos s c = Some x \<Longrightarrow>
     \<exists>t s' c'. s = t @ s' \<and> n \<le> length t \<and> k (pos + length t) s' c' = Some x"
  unfolding consumes_def by blast

lemma consumesI:
  "(\<And>k pos s c x. f k pos s c = Some x \<Longrightarrow>
      \<exists>t s' c'. s = t @ s' \<and> n \<le> length t \<and> k (pos + length t) s' c' = Some x) \<Longrightarrow> consumes n f"
  unfolding consumes_def by blast

lemma consumes_mono:
  assumes "consumes n f" and "m \<le> n"
  shows "consumes m f"
proof (rule consumesI)
  fix k :: "'a cont" and pos s c x
  assume "f k pos s c = Some x"
  from consumesD[OF assms(1) this] obtain t s1 c1 where
    "s = t @ s1" "n \<le> length t" "k (pos + length t) s1 c1 = Some x" by blast
  with assms(2) have "s = t @ s1 \<and> m \<le> length t \<and> k (pos + length t) s1 c1 = Some x" by simp
  then show "\<exists>t s' c'. s = t @ s' \<and> m \<le> length t \<and> k (pos + length t) s' c' = Some x" by blast
qed

lemma star_iter_consumes:
  assumes f: "consumes 0 f"
  shows "star_iter n g f k pos s c = Some x \<Longrightarrow>
           \<exists>t s' c'. s = t @ s' \<and> k (pos + length t) s' c' = Some x"
proof (induction n arbitrary: pos s c)
  case 0
  then have "s = [] @ s \<and> k (pos + length ([]::string)) s c = Some x" by simp
  then show ?case by blast
next
  case (Suc n)
  let ?k' = "\<lambda>pos' s' c'. if length s' < length s then star_iter n g f k pos' s' c' else None"
  from Suc.prems have "f ?k' pos s c = Some x \<or> k pos s c = Some x"
    by (auto split: if_splits option.splits)
  then show ?case
  proof
    assume "f ?k' pos s c = Some x"
    from consumesD[OF f this] obtain t1 s1 c1 where
      s: "s = t1 @ s1" and a: "?k' (pos + length t1) s1 c1 = Some x" by blast
    from a have "star_iter n g f k (pos + length t1) s1 c1 = Some x" by (auto split: if_splits)
    from Suc.IH[OF this] obtain t2 s2 c2 where
      s1: "s1 = t2 @ s2" and b: "k (pos + length t1 + length t2) s2 c2 = Some x" by blast
    from s s1 b have "s = (t1 @ t2) @ s2 \<and> k (pos + length (t1 @ t2)) s2 c2 = Some x"
      by (simp add: add.assoc)
    then show ?thesis by blast
  next
    assume "k pos s c = Some x"
    then have "s = [] @ s \<and> k (pos + length ([]::string)) s c = Some x" by simp
    then show ?thesis by blast
  qed
qed

lemma rmatch_consumes: "consumes (minlen r) (rmatch r ci)"
proof (induction r)
  case (In cs)
  show ?case
  proof (rule consumesI)
    fix k :: "'a cont" and pos s c x
    assume "rmatch (In cs) ci k pos s c = Some x"
    then obtain y ys where "s = [y] @ ys" and "k (pos + length [y]) ys c = Some x"
      by (cases s) (auto split: if_splits)
    then have "s = [y] @ ys \<and> minlen (In cs) \<le> length [y] \<and> k (pos + length [y]) ys c = Some x" by simp
    then show "\<exists>t s' c'. s = t @ s' \<and> minlen (In cs) \<le> length t \<and> k (pos + length t) s' c' = Some x"
      by blast
  qed
next
  case (NotIn cs)
  show ?case
  proof (rule consumesI)
    fix k :: "'a cont" and pos s c x
    assume "rmatch (NotIn cs) ci k pos s c = Some x"
    then obtain y ys where "s = [y] @ ys" and "k (pos + length [y]) ys c = Some x"
      by (cases s) (auto split: if_splits)
    then have "s = [y] @ ys \<and> minlen (NotIn cs) \<le> length [y] \<and> k (pos + length [y]) ys c = Some x" by simp
    then show "\<exists>t s' c'. s = t @ s' \<and> minlen (NotIn cs) \<le> length t \<and> k (pos + length t) s' c' = Some x"
      by blast
  qed
next
  case AnyChar
  show ?case
  proof (rule consumesI)
    fix k :: "'a cont" and pos s c x
    assume "rmatch AnyChar ci k pos s c = Some x"
    then obtain y ys where "s = [y] @ ys" and "k (pos + length [y]) ys c = Some x"
      by (cases s) (auto split: if_splits)
    then have "s = [y] @ ys \<and> minlen AnyChar \<le> length [y] \<and> k (pos + length [y]) ys c = Some x" by simp
    then show "\<exists>t s' c'. s = t @ s' \<and> minlen AnyChar \<le> length t \<and> k (pos + length t) s' c' = Some x"
      by blast
  qed
next
  case Eps
  show ?case
  proof (rule consumesI)
    fix k :: "'a cont" and pos s c x
    assume "rmatch Eps ci k pos s c = Some x"
    then have "s = [] @ s \<and> minlen Eps \<le> length ([]::string) \<and> k (pos + length ([]::string)) s c = Some x" by simp
    then show "\<exists>t s' c'. s = t @ s' \<and> minlen Eps \<le> length t \<and> k (pos + length t) s' c' = Some x"
      by blast
  qed
next
  case Bol
  show ?case
  proof (rule consumesI)
    fix k :: "'a cont" and pos s c x
    assume "rmatch Bol ci k pos s c = Some x"
    then have "s = [] @ s \<and> minlen Bol \<le> length ([]::string) \<and> k (pos + length ([]::string)) s c = Some x"
      by (simp split: if_splits)
    then show "\<exists>t s' c'. s = t @ s' \<and> minlen Bol \<le> length t \<and> k (pos + length t) s' c' = Some x"
      by blast
  qed
next
  case Eol
  show ?case
  proof (rule consumesI)
    fix k :: "'a cont" and pos s c x
    assume "rmatch Eol ci k pos s c = Some x"
    then have "s = [] @ s \<and> minlen Eol \<le> length ([]::string) \<and> k (pos + length ([]::string)) s c = Some x"
      by (simp split: if_splits)
    then show "\<exists>t s' c'. s = t @ s' \<and> minlen Eol \<le> length t \<and> k (pos + length t) s' c' = Some x"
      by blast
  qed
next
  case (Seq a b)
  show ?case
  proof (rule consumesI)
    fix k :: "'a cont" and pos s c x
    assume "rmatch (Seq a b) ci k pos s c = Some x"
    then have "rmatch a ci (rmatch b ci k) pos s c = Some x" by simp
    from consumesD[OF Seq.IH(1) this] obtain t1 s1 c1 where
      s: "s = t1 @ s1" and la: "minlen a \<le> length t1"
      and a: "rmatch b ci k (pos + length t1) s1 c1 = Some x" by blast
    from consumesD[OF Seq.IH(2) a] obtain t2 s2 c2 where
      s1: "s1 = t2 @ s2" and lb: "minlen b \<le> length t2"
      and b: "k (pos + length t1 + length t2) s2 c2 = Some x" by blast
    from s s1 la lb b
    have "s = (t1 @ t2) @ s2 \<and> minlen (Seq a b) \<le> length (t1 @ t2) \<and> k (pos + length (t1 @ t2)) s2 c2 = Some x"
      by (simp add: add.assoc)
    then show "\<exists>t s' c'. s = t @ s' \<and> minlen (Seq a b) \<le> length t \<and> k (pos + length t) s' c' = Some x"
      by blast
  qed
next
  case (Alt a b)
  show ?case
  proof (rule consumesI)
    fix k :: "'a cont" and pos s c x
    assume "rmatch (Alt a b) ci k pos s c = Some x"
    then have "rmatch a ci k pos s c = Some x \<or> rmatch b ci k pos s c = Some x"
      by (auto split: option.splits)
    then show "\<exists>t s' c'. s = t @ s' \<and> minlen (Alt a b) \<le> length t \<and> k (pos + length t) s' c' = Some x"
    proof
      assume "rmatch a ci k pos s c = Some x"
      from consumesD[OF consumes_mono[OF Alt.IH(1), of "minlen (Alt a b)"] this]
      show ?thesis by simp
    next
      assume "rmatch b ci k pos s c = Some x"
      from consumesD[OF consumes_mono[OF Alt.IH(2), of "minlen (Alt a b)"] this]
      show ?thesis by simp
    qed
  qed
next
  case (Star g a)
  show ?case
  proof (rule consumesI)
    fix k :: "'a cont" and pos s c x
    assume "rmatch (Star g a) ci k pos s c = Some x"
    then have "star_iter (length s) g (rmatch a ci) k pos s c = Some x" by simp
    from star_iter_consumes[OF consumes_mono[OF Star.IH, of 0] this]
    show "\<exists>t s' c'. s = t @ s' \<and> minlen (Star g a) \<le> length t \<and> k (pos + length t) s' c' = Some x"
      by simp
  qed
next
  case (Group n a)
  show ?case
  proof (rule consumesI)
    fix k :: "'a cont" and pos s c x
    assume "rmatch (Group n a) ci k pos s c = Some x"
    then have "rmatch a ci (\<lambda>pos' s' c'. k pos' s' ((n, take (pos' - pos) s) # c')) pos s c = Some x" by simp
    from consumesD[OF Group.IH this]
    show "\<exists>t s' c'. s = t @ s' \<and> minlen (Group n a) \<le> length t \<and> k (pos + length t) s' c' = Some x"
      by auto
  qed
qed

text \<open>What a match looks like: its text and the rest make up the input from where the
  match starts, and the text is at least as long as the pattern's minimum.\<close>

lemma match_here_shape:
  assumes "match_here r ci pos s = Some m"
  shows "s = mtext m @ mrest m \<and> mstart m = pos \<and> mend m = pos + length (mtext m)
         \<and> minlen r \<le> length (mtext m)"
proof -
  from consumesD[OF rmatch_consumes assms[unfolded match_here_def]]
  obtain t s1 c1 where s: "s = t @ s1" and n: "minlen r \<le> length t" and
    "Some \<lparr>mstart = pos, mend = pos + length t, mtext = take (pos + length t - pos) s,
           mrest = s1, mcaps = c1\<rparr> = Some m"
    by blast
  then have "m = \<lparr>mstart = pos, mend = pos + length t, mtext = t, mrest = s1, mcaps = c1\<rparr>"
    by simp
  with s n show ?thesis by simp
qed

lemma search_shape:
  "search r ci pos s = Some m \<Longrightarrow>
     \<exists>u. s = u @ mtext m @ mrest m \<and> mstart m = pos + length u
          \<and> mend m = mstart m + length (mtext m) \<and> minlen r \<le> length (mtext m)"
proof (induction s arbitrary: pos)
  case Nil
  then have "match_here r ci pos [] = Some m" by simp
  from match_here_shape[OF this] have
    "[] = [] @ mtext m @ mrest m \<and> mstart m = pos + length ([]::string)
      \<and> mend m = mstart m + length (mtext m) \<and> minlen r \<le> length (mtext m)" by auto
  then show ?case by blast
next
  case (Cons x xs)
  show ?case
  proof (cases "match_here r ci pos (x # xs)")
    case None
    with Cons.prems have "search r ci (Suc pos) xs = Some m" by simp
    from Cons.IH[OF this] obtain u where
      "xs = u @ mtext m @ mrest m" "mstart m = Suc pos + length u"
      "mend m = mstart m + length (mtext m)" "minlen r \<le> length (mtext m)" by blast
    then have "x # xs = (x # u) @ mtext m @ mrest m \<and> mstart m = pos + length (x # u)
      \<and> mend m = mstart m + length (mtext m) \<and> minlen r \<le> length (mtext m)" by simp
    then show ?thesis by blast
  next
    case (Some m')
    with Cons.prems have "m' = m" by simp
    with Some have "match_here r ci pos (x # xs) = Some m" by simp
    from match_here_shape[OF this] have
      "x # xs = [] @ mtext m @ mrest m \<and> mstart m = pos + length ([]::string)
        \<and> mend m = mstart m + length (mtext m) \<and> minlen r \<le> length (mtext m)" by simp
    then show ?thesis by blast
  qed
qed

lemma search_rest:
  assumes "search r ci pos s = Some m"
  shows "length (mrest m) + minlen r \<le> length s"
    and "length (mrest m) + length (mtext m) \<le> length s"
proof -
  from search_shape[OF assms] obtain u where
    "s = u @ mtext m @ mrest m" and "minlen r \<le> length (mtext m)" by blast
  then have "length s = length u + length (mtext m) + length (mrest m)" 
    by (metis length_append add.assoc)
  with \<open>minlen r \<le> length (mtext m)\<close>
  show "length (mrest m) + minlen r \<le> length s"
    and "length (mrest m) + length (mtext m) \<le> length s" by simp_all
qed

text \<open>
  The loop \<^verbatim>\<open>while ((match = pattern.exec(line)) !== null) { ... }\<close> over a pattern with the
  flag \<^verbatim>\<open>g\<close>, the pattern being fresh (\<^verbatim>\<open>lastIndex\<close> 0): each search starts where the
  last match ended.  The result is the list of the matches the body sees.  A match that
  ends where its search started leaves \<^verbatim>\<open>lastIndex\<close> as it is, and the loop never ends:
  that is the result \<open>None\<close>.
\<close>

function exec_from :: "regex \<Rightarrow> bool \<Rightarrow> nat \<Rightarrow> string \<Rightarrow> regmatch list option" where
  "exec_from r ci pos s =
     (case search r ci pos s of
        None \<Rightarrow> Some []
      | Some m \<Rightarrow>
          if length (mrest m) < length s
          then map_option ((#) m) (exec_from r ci (mend m) (mrest m))
          else None)"
  by pat_completeness auto
termination
  by (relation "measure (\<lambda>(r, ci, pos, s). length s)") auto

definition exec_all :: "regex \<Rightarrow> bool \<Rightarrow> string \<Rightarrow> regmatch list option" where
  "exec_all r ci s = exec_from r ci 0 s"

declare exec_from.simps [simp del]




text \<open>
  \<^verbatim>\<open>str.match(re)\<close> for a pattern with the flag \<^verbatim>\<open>g\<close>: the texts of all matches, each
  search starting where the last match ended, one character further after an empty
  match.  (JavaScript returns \<^verbatim>\<open>null\<close> for no match; the callers treat it as the empty
  list.)
\<close>

function match_global_from :: "regex \<Rightarrow> bool \<Rightarrow> nat \<Rightarrow> string \<Rightarrow> string list" where
  "match_global_from r ci pos s =
     (case search r ci pos s of
        None \<Rightarrow> []
      | Some m \<Rightarrow>
          if mtext m = [] then
            (case mrest m of
               [] \<Rightarrow> [[]]
             | x # xs \<Rightarrow> [] # match_global_from r ci (Suc (mend m)) xs)
          else mtext m # match_global_from r ci (mend m) (mrest m))"
  by pat_completeness auto
termination
proof (relation "measure (\<lambda>(r, ci, pos, s). length s)")
  show "wf (measure (\<lambda>(r, ci, pos, s). length s))" by simp
next
  fix r ci pos s m x xs
  assume "search r ci pos s = Some m" and "mrest m = x # xs"
  with search_rest(2)[of r ci pos s m]
  show "((r, ci, Suc (mend m), xs), r, ci, pos, s) \<in> measure (\<lambda>(r, ci, pos, s). length s)"
    by simp
next
  fix r ci pos s m
  assume "search r ci pos s = Some m" and "mtext m \<noteq> []"
  with search_rest(2)[of r ci pos s m]
  show "((r, ci, mend m, mrest m), r, ci, pos, s) \<in> measure (\<lambda>(r, ci, pos, s). length s)"
    by (cases "mtext m") simp_all
qed

declare match_global_from.simps [simp del]

definition match_global :: "string \<Rightarrow> regex \<Rightarrow> bool \<Rightarrow> string list" where
  "match_global s r ci = match_global_from r ci 0 s"


section \<open>JavaScript numbers\<close>

text \<open>
  A number is an exact rational, an infinity or NaN.  The rounding of a decimal numeral
  to a double and the overflow of a long numeral to Infinity are not modelled, nor is
  the sign of zero.
\<close>

datatype jsnum = NaN | Fin rat | PosInf | NegInf

definition isNaN :: "jsnum \<Rightarrow> bool" where
  "isNaN x = (x = NaN)"

fun js_lt :: "jsnum \<Rightarrow> jsnum \<Rightarrow> bool" where
  "js_lt (Fin x) (Fin y) = (x < y)"
| "js_lt (Fin x) PosInf = True"
| "js_lt NegInf (Fin y) = True"
| "js_lt NegInf PosInf = True"
| "js_lt _ _ = False"

definition js_le :: "jsnum \<Rightarrow> jsnum \<Rightarrow> bool" where
  "js_le x y = (x \<noteq> NaN \<and> y \<noteq> NaN \<and> (js_lt x y \<or> x = y))"

definition js_gt :: "jsnum \<Rightarrow> jsnum \<Rightarrow> bool" where
  "js_gt x y = js_lt y x"

definition js_ge :: "jsnum \<Rightarrow> jsnum \<Rightarrow> bool" where
  "js_ge x y = js_le y x"

fun js_add :: "jsnum \<Rightarrow> jsnum \<Rightarrow> jsnum" where
  "js_add (Fin x) (Fin y) = Fin (x + y)"
| "js_add NaN _ = NaN"
| "js_add _ NaN = NaN"
| "js_add PosInf NegInf = NaN"
| "js_add NegInf PosInf = NaN"
| "js_add PosInf _ = PosInf"
| "js_add _ PosInf = PosInf"
| "js_add NegInf _ = NegInf"
| "js_add _ NegInf = NegInf"

text \<open>Division by a positive finite number (the parsers divide by 2 and by a length of
  at least 2); any other divisor gives NaN here.\<close>

fun js_div :: "jsnum \<Rightarrow> jsnum \<Rightarrow> jsnum" where
  "js_div (Fin x) (Fin y) = (if 0 < y then Fin (x / y) else NaN)"
| "js_div PosInf (Fin y) = (if 0 < y then PosInf else NaN)"
| "js_div NegInf (Fin y) = (if 0 < y then NegInf else NaN)"
| "js_div _ _ = NaN"

text \<open>\<^verbatim>\<open>Math.min(...xs)\<close> and \<^verbatim>\<open>Math.max(...xs)\<close>.\<close>

fun js_min2 :: "jsnum \<Rightarrow> jsnum \<Rightarrow> jsnum" where
  "js_min2 NaN _ = NaN"
| "js_min2 _ NaN = NaN"
| "js_min2 x y = (if js_lt y x then y else x)"

fun js_max2 :: "jsnum \<Rightarrow> jsnum \<Rightarrow> jsnum" where
  "js_max2 NaN _ = NaN"
| "js_max2 _ NaN = NaN"
| "js_max2 x y = (if js_lt x y then y else x)"

definition Math_min :: "jsnum list \<Rightarrow> jsnum" where
  "Math_min xs = foldl js_min2 PosInf xs"

definition Math_max :: "jsnum list \<Rightarrow> jsnum" where
  "Math_max xs = foldl js_max2 NegInf xs"

text \<open>
  \<^verbatim>\<open>parseFloat\<close>: leading white space is skipped, then the longest prefix that is a decimal
  literal is read: a sign, then \<^verbatim>\<open>Infinity\<close> or digits with an optional fraction and an
  optional exponent; NaN when there is no such prefix.
\<close>

definition digit_val :: "char \<Rightarrow> nat" where
  "digit_val c = of_char c - 48"

definition digits_val :: "string \<Rightarrow> nat" where
  "digits_val ds = foldl (\<lambda>a c. 10 * a + digit_val c) 0 ds"

text \<open>The exponent part at the head of \<open>s\<close>, 0 when there is none.\<close>

definition exponent_part :: "string \<Rightarrow> int" where
  "exponent_part s =
     (case s of
        [] \<Rightarrow> 0
      | e # r \<Rightarrow>
          if e = CHR ''e'' \<or> e = CHR ''E'' then
            (case r of
               [] \<Rightarrow> 0
             | sg # r' \<Rightarrow>
                 if sg = CHR ''-'' then
                   (if takeWhile is_digit r' = [] then 0 else - int (digits_val (takeWhile is_digit r')))
                 else if sg = CHR ''+'' then int (digits_val (takeWhile is_digit r'))
                 else int (digits_val (takeWhile is_digit r)))
          else 0)"

definition pow10 :: "int \<Rightarrow> rat" where
  "pow10 e = (if 0 \<le> e then 10 ^ nat e else 1 / 10 ^ nat (- e))"

definition unsigned_literal :: "string \<Rightarrow> jsnum" where
  "unsigned_literal s =
     (if startsWith s ''Infinity'' then PosInf
      else
        let ip = takeWhile is_digit s;
            r1 = dropWhile is_digit s;
            has_dot = (case r1 of [] \<Rightarrow> False | d # _ \<Rightarrow> d = CHR ''.'');
            fp = (if has_dot then takeWhile is_digit (tl r1) else []);
            r2 = (if has_dot then dropWhile is_digit (tl r1) else r1)
        in if ip = [] \<and> fp = [] then NaN
           else Fin (of_nat (digits_val (ip @ fp)) / 10 ^ length fp * pow10 (exponent_part r2)))"

fun js_neg :: "jsnum \<Rightarrow> jsnum" where
  "js_neg (Fin x) = Fin (- x)"
| "js_neg PosInf = NegInf"
| "js_neg NegInf = PosInf"
| "js_neg NaN = NaN"

definition parseFloat :: "string \<Rightarrow> jsnum" where
  "parseFloat s =
     (case dropWhile is_space s of
        [] \<Rightarrow> NaN
      | c # r \<Rightarrow>
          if c = CHR ''-'' then js_neg (unsigned_literal r)
          else if c = CHR ''+'' then unsigned_literal r
          else unsigned_literal (c # r))"

text \<open>\<^verbatim>\<open>parseFloat\<close> of a capture group: \<^verbatim>\<open>undefined\<close> gives NaN.\<close>

definition parseFloat_grp :: "string option \<Rightarrow> jsnum" where
  "parseFloat_grp g = (case g of None \<Rightarrow> NaN | Some s \<Rightarrow> parseFloat s)"


section \<open>Price records\<close>

text \<open>
  The objects the parsers build.  A property an object does not have, and the value
  \<^verbatim>\<open>null\<close>, are \<open>None\<close>.  The DA parsers give the category and \<^verbatim>\<open>hasRange\<close>; the NCR parser
  gives \<^verbatim>\<open>market\<close>, the RX parser \<^verbatim>\<open>category_header\<close>, the DOE parser \<^verbatim>\<open>fuelType\<close>
  and \<^verbatim>\<open>brand\<close> (always \<^verbatim>\<open>null\<close>).
\<close>

record entry =
  commodity :: string
  unit :: string
  source :: string
  region :: string
  date :: string
  category :: "string option"
  hasRange :: "bool option"
  filename :: "string option"

record price_record = entry +
  price :: jsnum
  fuelType :: "string option"
  brand :: "string option"

record price_range_record = entry +
  minPrice :: jsnum
  maxPrice :: jsnum
  averagePrice :: jsnum
  market :: "string option"
  category_header :: "string option"

text \<open>What a DA parser returns: \<^verbatim>\<open>{ results, priceRanges }\<close>.\<close>

record parse_result =
  results :: "price_record list"
  priceRanges :: "price_range_record list"


section \<open>The DA parser\<close>

text \<open>
  The parameter \<^verbatim>\<open>debug\<close> of the parsers only adds console output; it is left out, and so
  is what the parsers print under it.
\<close>

definition DA_SOURCE :: string where
  "DA_SOURCE = ''DA''"

definition DA_DATE :: string where
  "DA_DATE = ''2025-06-26''"

definition COMMODITY_CATEGORIES :: "(string \<times> string list) list" where
  "COMMODITY_CATEGORIES =
     [(''rice'', [''rice'', ''bigas'', ''palay'', ''white rice'', ''brown rice'', ''special'',
                  ''premium'', ''well milled'', ''regular milled'']),
      (''vegetables'', [''vegetables'', ''gulay'', ''tomato'', ''onion'', ''garlic'', ''potato'',
                        ''cabbage'', ''carrot'']),
      (''fruits'', [''fruits'', ''prutas'', ''banana'', ''apple'', ''orange'', ''mango'', ''papaya'']),
      (''meat'', [''meat'', ''karne'', ''pork'', ''beef'', ''chicken'', ''fish'', ''bangus'',
                  ''tilapia'', ''galunggong'']),
      (''dairy'', [''dairy'', ''milk'', ''cheese'', ''butter'', ''eggs'']),
      (''grains'', [''grains'', ''corn'', ''wheat'', ''flour'']),
      (''sugar'', [''sugar'', ''asukal'']),
      (''oil'', [''oil'', ''cooking oil'', ''vegetable oil''])]"

definition MARKET_NAMES :: "string list" where
  "MARKET_NAMES =
     [''Agora Public Market'', ''Balintawak'', ''Bicutan Market'', ''Cartimar Market'',
      ''Commonwealth Market'', ''Dagonoy Market'', ''Guadalupe Public Market'',
      ''Kamuning Public Market'', ''La Huerta Market'',
      ''New Las Pi'' @ [CHR 0xF1] @ ''as City Public Market'',
      ''Malabon Central Market'', ''Mandaluyong Public Market'', ''Marikina Public Market'',
      ''Maypajo Public Market'', ''Mega Q-mart'', ''Navotas Fish Port'', ''Pasig City Market'',
      ''Quiapo Market'', ''San Andres Market'', ''Sta. Ana Market'', ''Taguig Market'',
      ''Valenzuela Market'', ''Vitas Market'']"

text \<open>\<^verbatim>\<open>normalizeCommodityType\<close>: the first category one of whose variations the lower-cased
  commodity includes.\<close>

fun first_category :: "(string \<times> string list) list \<Rightarrow> string \<Rightarrow> string" where
  "first_category [] lowerCommodity = ''other''"
| "first_category ((cat, variations) # rest) lowerCommodity =
     (if list_ex (\<lambda>v. str_includes lowerCommodity v) variations then cat
      else first_category rest lowerCommodity)"

definition normalizeCommodityType :: "string \<Rightarrow> string" where
  "normalizeCommodityType c = first_category COMMODITY_CATEGORIES (toLowerCase c)"

subsection \<open>parseNCRFormat\<close>

text \<open>\<^verbatim>\<open>(\d+(?:\.\d{1,2})?)\s*-\s*(\d+(?:\.\d{1,2})?)\<close> with the groups numbered \<open>a\<close> and \<open>b\<close>.\<close>

definition range_re :: "nat \<Rightarrow> nat \<Rightarrow> regex" where
  "range_re a b =
     Seq (Group a number) (Seq (star space) (Seq (chr CHR ''-'') (Seq (star space) (Group b number))))"

text \<open>The three patterns of the NCR parser, all with the flag \<^verbatim>\<open>g\<close>: one range, two
  ranges printed one after the other, four such ranges.\<close>

definition ncr_pricePatterns :: "regex list" where
  "ncr_pricePatterns =
     [range_re 1 2,
      Seq (range_re 1 2) (range_re 3 4),
      Seq (range_re 1 2) (Seq (range_re 3 4) (Seq (range_re 5 6) (range_re 7 8)))]"

definition isMarketName :: "string \<Rightarrow> bool" where
  "isMarketName line = list_ex (\<lambda>market. str_includes (toLowerCase line) (toLowerCase market)) MARKET_NAMES"

text \<open>The body of the \<^verbatim>\<open>while\<close> loop for one match: the entries it pushes.\<close>

definition ncr_match_entries :: "regex \<Rightarrow> string \<Rightarrow> string \<Rightarrow> string \<Rightarrow> regmatch \<Rightarrow> price_range_record list" where
  "ncr_match_entries pattern currentMarket reg dat m =
     (if 3 \<le> Suc (groups pattern) then
        (let mn = parseFloat_grp (grp m 1);
             mx = parseFloat_grp (grp m 2)
         in if \<not> isNaN mn \<and> \<not> isNaN mx \<and> js_gt mn (Fin 0) \<and> js_gt mx (Fin 0) \<and> js_ge mx mn
            then [\<lparr>commodity = (if currentMarket \<noteq> [] then ''Rice at '' @ currentMarket else ''Rice''),
                   unit = ''per kg'',
                   source = DA_SOURCE,
                   region = reg,
                   date = dat,
                   category = Some ''rice'',
                   hasRange = Some True,
                   filename = None,
                   minPrice = mn,
                   maxPrice = mx,
                   averagePrice = js_div (js_add mn mx) (Fin 2),
                   market = Some currentMarket,
                   category_header = None\<rparr>]
            else [])
      else [])"

text \<open>The loop over the patterns for one line.\<close>

fun ncr_line_entries :: "regex list \<Rightarrow> string \<Rightarrow> string \<Rightarrow> string \<Rightarrow> string \<Rightarrow> price_range_record list option" where
  "ncr_line_entries [] line currentMarket reg dat = Some []"
| "ncr_line_entries (pattern # patterns) line currentMarket reg dat =
     (case exec_all pattern False line of
        None \<Rightarrow> None
      | Some ms \<Rightarrow>
          map_option ((@) (concat (map (ncr_match_entries pattern currentMarket reg dat) ms)))
            (ncr_line_entries patterns line currentMarket reg dat))"

text \<open>The loop over the lines; \<open>currentMarket\<close> is the state it carries.\<close>

fun ncr_lines :: "string \<Rightarrow> string list \<Rightarrow> string \<Rightarrow> string \<Rightarrow> price_range_record list option" where
  "ncr_lines currentMarket [] reg dat = Some []"
| "ncr_lines currentMarket (l # ls) reg dat =
     (let line = trim l in
      if line = [] \<or> length line < 3 then ncr_lines currentMarket ls reg dat
      else if isMarketName line then ncr_lines line ls reg dat
      else
        (case ncr_line_entries ncr_pricePatterns line currentMarket reg dat of
           None \<Rightarrow> None
         | Some es \<Rightarrow> map_option ((@) es) (ncr_lines currentMarket ls reg dat)))"

definition parseNCRFormat :: "string list \<Rightarrow> string \<Rightarrow> string \<Rightarrow> parse_result option" where
  "parseNCRFormat lines reg dat =
     map_option (\<lambda>rs. \<lparr>results = [], priceRanges = rs\<rparr>) (ncr_lines [] lines reg dat)"


subsection \<open>parseRXFormat\<close>

text \<open>\<^verbatim>\<open>(\w+\s+tag)?\<close> and \<^verbatim>\<open>(\w+\([^)]+\))?\<close>, both group 1, and \<^verbatim>\<open>n\/an\/an\/a\<close>.\<close>

definition tag_re :: regex where
  "tag_re = opt (Group 1 (Seq (plus wordch) (Seq (plus space) (lit ''tag''))))"

definition size_re :: regex where
  "size_re = opt (Group 1 (Seq (plus wordch)
                (Seq (chr CHR ''('') (Seq (plus (NotIn [One CHR '')''])) (chr CHR '')'')))))"

definition na3_re :: regex where
  "na3_re = lit ''n/an/an/a''"

text \<open>The four patterns of the RX parser, all with the flag \<^verbatim>\<open>g\<close>.\<close>

definition rx_pricePatterns :: "regex list" where
  "rx_pricePatterns =
     [Seq tag_re (Seq (Group 2 number) (Seq (Group 3 number) (Seq (Group 4 number)
        (Seq (Group 5 number) (Seq (Group 6 number) (Group 7 number)))))),
      Seq size_re (Seq na3_re (Seq (Group 2 number) (Seq (Group 3 number) (Group 4 number)))),
      Seq size_re (Seq (Group 2 number) (Seq (Group 3 number) (Seq (Group 4 number) na3_re))),
      Seq (Group 1 number) (Seq (Group 2 number) (Seq (Group 3 number) (Seq (Group 4 number)
        (Seq (Group 5 number) (Group 6 number)))))]"

text \<open>\<^verbatim>\<open>match.slice(1).filter(p => p && !isNaN(parseFloat(p))).map(p => parseFloat(p))\<close>.\<close>

definition rx_prices :: "regex \<Rightarrow> regmatch \<Rightarrow> jsnum list" where
  "rx_prices pattern m =
     map parseFloat_grp
       (filter (\<lambda>p. p \<noteq> None \<and> p \<noteq> Some [] \<and> \<not> isNaN (parseFloat_grp p)) (match_slice1 pattern m))"

definition rx_match_entries :: "regex \<Rightarrow> string \<Rightarrow> string \<Rightarrow> string \<Rightarrow> string \<Rightarrow> regmatch \<Rightarrow> price_range_record list" where
  "rx_match_entries pattern currentCategory currentCommodity reg dat m =
     (if 4 \<le> Suc (groups pattern) then
        (let prices = rx_prices pattern m in
         if 2 \<le> length prices then
           (let mn = Math_min prices;
                mx = Math_max prices;
                avgPrice = js_div (foldl js_add (Fin 0) prices) (Fin (of_nat (length prices)))
            in if js_gt mn (Fin 0) \<and> js_gt mx (Fin 0) \<and> js_ge mx mn
               then (let com = (if currentCommodity \<noteq> [] then currentCommodity else ''Rice'')
                     in [\<lparr>commodity = com,
                           unit = ''per kg'',
                           source = DA_SOURCE,
                           region = reg,
                           date = dat,
                           category = Some (normalizeCommodityType com),
                           hasRange = Some True,
                           filename = None,
                           minPrice = mn,
                           maxPrice = mx,
                           averagePrice = avgPrice,
                           market = None,
                           category_header = Some currentCategory\<rparr>])
               else [])
         else [])
      else [])"

fun rx_line_entries :: "regex list \<Rightarrow> string \<Rightarrow> string \<Rightarrow> string \<Rightarrow> string \<Rightarrow> string \<Rightarrow> price_range_record list option" where
  "rx_line_entries [] line currentCategory currentCommodity reg dat = Some []"
| "rx_line_entries (pattern # patterns) line currentCategory currentCommodity reg dat =
     (case exec_all pattern False line of
        None \<Rightarrow> None
      | Some ms \<Rightarrow>
          map_option ((@) (concat (map (rx_match_entries pattern currentCategory currentCommodity reg dat) ms)))
            (rx_line_entries patterns line currentCategory currentCommodity reg dat))"

definition rx_is_category_header :: "string \<Rightarrow> bool" where
  "rx_is_category_header line =
     (str_includes line ''IMPORTED COMMERCIAL RICE'' \<or> str_includes line ''LOCAL COMMERCIAL RICE''
      \<or> str_includes line ''FISH'' \<or> str_includes line ''MEAT''
      \<or> str_includes line ''VEGETABLES'' \<or> str_includes line ''FRUITS'')"

definition rx_is_commodity :: "string \<Rightarrow> bool" where
  "rx_is_commodity line =
     (str_includes line ''Special'' \<or> str_includes line ''Premium''
      \<or> str_includes line ''Well milled'' \<or> str_includes line ''Regular milled''
      \<or> str_includes line ''Bangus'' \<or> str_includes line ''Tilapia'' \<or> str_includes line ''Galunggong'')"

text \<open>The loop over the lines; \<open>currentCategory\<close> and \<open>currentCommodity\<close> are its state.\<close>

fun rx_lines :: "string \<Rightarrow> string \<Rightarrow> string list \<Rightarrow> string \<Rightarrow> string \<Rightarrow> price_range_record list option" where
  "rx_lines currentCategory currentCommodity [] reg dat = Some []"
| "rx_lines currentCategory currentCommodity (l # ls) reg dat =
     (let line = trim l in
      if line = [] \<or> length line < 3 then rx_lines currentCategory currentCommodity ls reg dat
      else if rx_is_category_header line then rx_lines line currentCommodity ls reg dat
      else if rx_is_commodity line then rx_lines currentCategory line ls reg dat
      else
        (case rx_line_entries rx_pricePatterns line currentCategory currentCommodity reg dat of
           None \<Rightarrow> None
         | Some es \<Rightarrow> map_option ((@) es) (rx_lines currentCategory currentCommodity ls reg dat)))"

definition parseRXFormat :: "string list \<Rightarrow> string \<Rightarrow> string \<Rightarrow> parse_result option" where
  "parseRXFormat lines reg dat =
     map_option (\<lambda>rs. \<lparr>results = [], priceRanges = rs\<rparr>) (rx_lines [] [] lines reg dat)"

subsection \<open>parseGenericFormat\<close>

text \<open>\<^verbatim>\<open>[a-zA-Z\s]+\<close> and \<^verbatim>\<open>\s+\<close>.\<close>

definition letters_spaces :: regex where
  "letters_spaces = plus (In [Range CHR ''a'' CHR ''z'', Range CHR ''A'' CHR ''Z'', Space])"

definition spaces1 :: regex where
  "spaces1 = plus space"

text \<open>\<^verbatim>\<open>^([a-zA-Z\s]+)\s+(\d+(?:\.\d{1,2})?)\<close>: the first pattern, and the head of the
  fourth and the fifth.\<close>

definition commodity_price_re :: regex where
  "commodity_price_re = Seq Bol (Seq (Group 1 letters_spaces) (Seq spaces1 (Group 2 number)))"

text \<open>The five patterns of the generic parser, all with the flag \<^verbatim>\<open>i\<close>, in the order of
  the source.\<close>

definition PRICE_PATTERNS :: "regex list" where
  "PRICE_PATTERNS =
     [commodity_price_re,
      Seq Bol (Seq (Group 1 letters_spaces) (Seq spaces1 (Seq (opt (Seq (lit ''per'') spaces1))
        (Seq (Group 2 (Alt (lit ''kg'') (Alt (lit ''g'') (Alt (lit ''liter'') (Alt (lit ''l'')
                (Alt (lit ''piece'') (Alt (lit ''pc'') (lit ''pcs''))))))))
           (Seq spaces1 (Group 3 number)))))),
      Seq Bol (Seq (Group 1 number) (Seq spaces1 (Group 2 letters_spaces))),
      Seq commodity_price_re (Seq (star space) (Seq (chr CHR ''-'') (Seq (star space) (Group 3 number)))),
      Seq commodity_price_re (Seq spaces1 (Group 3 number))]"

text \<open>The loop \<^verbatim>\<open>for (j ...) { match = line.match(PRICE_PATTERNS[j]); if (match) break }\<close>:
  the first pattern that matches, with its index.\<close>

fun first_match :: "regex list \<Rightarrow> nat \<Rightarrow> bool \<Rightarrow> string \<Rightarrow> (nat \<times> regmatch) option" where
  "first_match [] j ci line = None"
| "first_match (p # ps) j ci line =
     (case str_match line p ci of
        Some m \<Rightarrow> Some (j, m)
      | None \<Rightarrow> first_match ps (Suc j) ci line)"

text \<open>A string that may be \<^verbatim>\<open>undefined\<close> is truthy when it is defined and not empty.\<close>

definition truthy :: "string option \<Rightarrow> bool" where
  "truthy v = (v \<noteq> None \<and> v \<noteq> Some [])"

definition generic_is_header :: "string \<Rightarrow> bool" where
  "generic_is_header com =
     (length com < 2
      \<or> str_includes (toLowerCase com) ''page''
      \<or> str_includes (toLowerCase com) ''monitoring''
      \<or> str_includes (toLowerCase com) ''price''
      \<or> str_includes (toLowerCase com) ''date''
      \<or> str_includes (toLowerCase com) ''region''
      \<or> str_includes (toLowerCase com) ''province'')"

text \<open>The variables the \<^verbatim>\<open>switch\<close> on the pattern index assigns from the match:
  commodity, price, unit (\<^verbatim>\<open>'per kg'\<close> unless the pattern captures one), minPrice,
  maxPrice.\<close>

definition generic_fields :: "nat \<Rightarrow> regmatch \<Rightarrow> string option \<times> string option \<times> string option \<times> string option \<times> string option" where
  "generic_fields patternIndex m =
     (if patternIndex = 0 then (grp m 1, grp m 2, Some ''per kg'', None, None)
      else if patternIndex = 1 then (grp m 1, grp m 3, grp m 2, None, None)
      else if patternIndex = 2 then (grp m 2, grp m 1, Some ''per kg'', None, None)
      else if patternIndex = 3 then (grp m 1, None, Some ''per kg'', grp m 2, grp m 3)
      else if patternIndex = 4 then (grp m 1, None, Some ''per kg'', grp m 2, grp m 3)
      else (None, None, Some ''per kg'', None, None))"

definition generic_range_entries :: "string \<Rightarrow> string \<Rightarrow> string option \<Rightarrow> string option \<Rightarrow> string \<Rightarrow> string \<Rightarrow> price_range_record list" where
  "generic_range_entries com un minP maxP reg dat =
     (if truthy minP \<and> truthy maxP then
        (let mn = parseFloat_grp minP; mx = parseFloat_grp maxP in
         if \<not> isNaN mn \<and> \<not> isNaN mx \<and> js_gt mn (Fin 0) \<and> js_gt mx (Fin 0) \<and> js_ge mx mn
         then [\<lparr>commodity = com,
                unit = un,
                source = DA_SOURCE,
                region = reg,
                date = dat,
                category = Some (normalizeCommodityType com),
                hasRange = Some True,
                filename = None,
                minPrice = mn,
                maxPrice = mx,
                averagePrice = js_div (js_add mn mx) (Fin 2),
                market = None,
                category_header = None\<rparr>]
         else [])
      else [])"

definition generic_price_entries :: "string \<Rightarrow> string \<Rightarrow> string option \<Rightarrow> string \<Rightarrow> string \<Rightarrow> price_record list" where
  "generic_price_entries com un pr reg dat =
     (if truthy pr then
        (let singlePrice = parseFloat_grp pr in
         if \<not> isNaN singlePrice \<and> js_gt singlePrice (Fin 0) \<and> js_lt singlePrice (Fin 10000)
         then [\<lparr>commodity = com,
                unit = un,
                source = DA_SOURCE,
                region = reg,
                date = dat,
                category = Some (normalizeCommodityType com),
                hasRange = Some False,
                filename = None,
                price = singlePrice,
                fuelType = None,
                brand = None\<rparr>]
         else [])
      else [])"

text \<open>One line: the single prices and the ranges it adds.\<close>

definition generic_line :: "string \<Rightarrow> string \<Rightarrow> string \<Rightarrow> price_record list \<times> price_range_record list" where
  "generic_line line reg dat =
     (case first_match PRICE_PATTERNS 0 True line of
        None \<Rightarrow> ([], [])
      | Some (patternIndex, m) \<Rightarrow>
          (case generic_fields patternIndex m of
             (com0, pr, un, minP, maxP) \<Rightarrow>
               (let com = (if truthy com0 then collapse_spaces (trim (the com0)) else [])
                in if generic_is_header com then ([], [])
                   else (generic_price_entries com (case un of Some u \<Rightarrow> u | None \<Rightarrow> []) pr reg dat,
                         generic_range_entries com (case un of Some u \<Rightarrow> u | None \<Rightarrow> []) minP maxP reg dat))))"

fun generic_lines :: "string list \<Rightarrow> string \<Rightarrow> string \<Rightarrow> price_record list \<times> price_range_record list" where
  "generic_lines [] reg dat = ([], [])"
| "generic_lines (l # ls) reg dat =
     (let line = trim l in
      if line = [] \<or> length line < 3 then generic_lines ls reg dat
      else (case generic_line line reg dat of
              (ps, rs) \<Rightarrow> (case generic_lines ls reg dat of (ps', rs') \<Rightarrow> (ps @ ps', rs @ rs'))))"

definition parseGenericFormat :: "string list \<Rightarrow> string \<Rightarrow> string \<Rightarrow> parse_result option" where
  "parseGenericFormat lines reg dat =
     (case generic_lines lines reg dat of (ps, rs) \<Rightarrow> Some \<lparr>results = ps, priceRanges = rs\<rparr>)"

subsection \<open>extractPricesFromText\<close>

definition da_extractPricesFromText :: "string \<Rightarrow> string \<Rightarrow> string \<Rightarrow> parse_result option" where
  "da_extractPricesFromText text reg dat =
     (let lines = split_lines text in
      if reg = ''NCR'' then parseNCRFormat lines reg dat
      else if reg = ''RX'' then parseRXFormat lines reg dat
      else parseGenericFormat lines reg dat)"


subsection \<open>extractDateFromFilename\<close>

definition digits2 :: regex where
  "digits2 = Seq digit digit"

definition digits4 :: regex where
  "digits4 = Seq digit (Seq digit (Seq digit digit))"

definition digits12 :: regex where
  "digits12 = Seq digit (opt digit)"

definition dash :: regex where
  "dash = chr CHR ''-''"

definition slash :: regex where
  "slash = chr CHR ''/''"

text \<open>\<^verbatim>\<open>\s+(\d{1,2}),?\s+(\d{4})\<close> with the groups numbered \<open>a\<close> and \<open>b\<close>.\<close>

definition day_year_re :: "nat \<Rightarrow> nat \<Rightarrow> regex" where
  "day_year_re a b =
     Seq spaces1 (Seq (Group a digits12) (Seq (opt (chr CHR '','')) (Seq spaces1 (Group b digits4))))"

text \<open>The first five patterns, which the DOE parser has too.\<close>

definition numeric_datePatterns :: "regex list" where
  "numeric_datePatterns =
     [Seq (Group 1 digits2) (Seq (Group 2 digits2) (Group 3 digits4)),
      Seq (Group 1 digits4) (Seq dash (Seq (Group 2 digits2) (Seq dash (Group 3 digits2)))),
      Seq (Group 1 digits2) (Seq dash (Seq (Group 2 digits2) (Seq dash (Group 3 digits4)))),
      Seq (Group 1 digits12) (Seq slash (Seq (Group 2 digits12) (Seq slash (Group 3 digits4)))),
      Seq (Group 1 digits4) (Seq (Group 2 digits2) (Group 3 digits2))]"

definition da_datePatterns :: "regex list" where
  "da_datePatterns = numeric_datePatterns @
     [Seq (Group 1 (plus wordch)) (day_year_re 2 3),
      Seq (Group 1 digits12) (Seq slash (Seq (Group 2 digits12) (Seq slash (Group 3 digits2)))),
      Seq (lit ''April'') (day_year_re 1 2),
      Seq (lit ''June'') (day_year_re 1 2)]"

text \<open>A capture group inside a template literal: \<^verbatim>\<open>undefined\<close> prints as such.\<close>

definition tmpl :: "string option \<Rightarrow> string" where
  "tmpl g = (case g of None \<Rightarrow> ''undefined'' | Some s \<Rightarrow> s)"

text \<open>
  The loop over the patterns.  The result \<open>None\<close> stands for the TypeError of reading
  \<^verbatim>\<open>length\<close> or \<^verbatim>\<open>padStart\<close> of a group that is \<^verbatim>\<open>undefined\<close>.  A match whose first
  group has neither length 4 nor length 2 and is neither \<^verbatim>\<open>April\<close> nor \<^verbatim>\<open>June\<close> returns
  nothing, and the loop goes on with the next pattern.
\<close>

fun da_date_loop :: "regex list \<Rightarrow> string \<Rightarrow> string option" where
  "da_date_loop [] fname = Some DA_DATE"
| "da_date_loop (pattern # patterns) fname =
     (case str_match fname pattern False of
        None \<Rightarrow> da_date_loop patterns fname
      | Some m \<Rightarrow>
          (case grp m 1 of
             None \<Rightarrow> None
           | Some g1 \<Rightarrow>
               if length g1 = 4 then Some (g1 @ ''-'' @ tmpl (grp m 2) @ ''-'' @ tmpl (grp m 3))
               else if length g1 = 2 then
                 (case grp m 2 of
                    None \<Rightarrow> None
                  | Some g2 \<Rightarrow> Some (tmpl (grp m 3) @ ''-'' @ padStart2 g1 @ ''-'' @ padStart2 g2))
               else if g1 = ''April'' \<or> g1 = ''June'' then
                 Some (tmpl (grp m 2) @ ''-'' @ (if g1 = ''April'' then ''04'' else ''06'')
                       @ ''-'' @ (if g1 = ''April'' then ''07'' else ''26''))
               else da_date_loop patterns fname))"

definition da_extractDateFromFilename :: "string \<Rightarrow> string option" where
  "da_extractDateFromFilename fname = da_date_loop da_datePatterns fname"


section \<open>The DOE parser\<close>

definition DOE_SOURCE :: string where
  "DOE_SOURCE = ''DOE''"

definition DOE_DATE :: string where
  "DOE_DATE = ''2025-06-17''"

fun doe_date_loop :: "regex list \<Rightarrow> string \<Rightarrow> string option" where
  "doe_date_loop [] fname = Some DOE_DATE"
| "doe_date_loop (pattern # patterns) fname =
     (case str_match fname pattern False of
        None \<Rightarrow> doe_date_loop patterns fname
      | Some m \<Rightarrow>
          (case grp m 1 of
             None \<Rightarrow> None
           | Some g1 \<Rightarrow>
               if length g1 = 4 then Some (g1 @ ''-'' @ tmpl (grp m 2) @ ''-'' @ tmpl (grp m 3))
               else
                 (case grp m 2 of
                    None \<Rightarrow> None
                  | Some g2 \<Rightarrow> Some (tmpl (grp m 3) @ ''-'' @ padStart2 g1 @ ''-'' @ padStart2 g2))))"

definition doe_extractDateFromFilename :: "string \<Rightarrow> string option" where
  "doe_extractDateFromFilename fname = doe_date_loop numeric_datePatterns fname"

text \<open>\<^verbatim>\<open>RON\s+\d+|DIESEL(?:\s+PLUS)?|KEROSENE\<close>, the alternatives of a fuel-type line.\<close>

definition fuel_alternatives :: "regex \<Rightarrow> regex" where
  "fuel_alternatives others =
     Alt (Seq (lit ''RON'') (Seq spaces1 (plus digit)))
       (Alt (Seq (lit ''DIESEL'') (opt (Seq spaces1 (lit ''PLUS''))))
          (Alt (lit ''KEROSENE'') others))"

text \<open>\<^verbatim>\<open>/^(RON\s+\d+|DIESEL(?:\s+PLUS)?|KEROSENE)\s*$/i\<close>; the last alternative of the model
  is a class no character is in, so that it never matches.\<close>

definition fuel_header_re :: regex where
  "fuel_header_re = Seq Bol (Seq (Group 1 (fuel_alternatives (In []))) (Seq (star space) Eol))"

text \<open>\<^verbatim>\<open>/^(RON\s+\d+|DIESEL(?:\s+PLUS)?|KEROSENE|PROVINCE|CITY|MUNICIPALITY|PRODUCT)\s*$/i\<close>.\<close>

definition fuel_end_re :: regex where
  "fuel_end_re =
     Seq Bol (Seq (Group 1 (fuel_alternatives
                (Alt (lit ''PROVINCE'') (Alt (lit ''CITY'') (Alt (lit ''MUNICIPALITY'') (lit ''PRODUCT''))))))
       (Seq (star space) Eol))"

text \<open>The entry the DOE parser builds for a price.\<close>

definition doe_entry :: "string \<Rightarrow> string \<Rightarrow> string \<Rightarrow> jsnum \<Rightarrow> price_record" where
  "doe_entry currentFuelType reg dat pr =
     \<lparr>commodity = currentFuelType,
      unit = ''per liter'',
      source = DOE_SOURCE,
      region = reg,
      date = dat,
      category = None,
      hasRange = None,
      filename = None,
      price = pr,
      fuelType = Some (if str_includes currentFuelType ''DIESEL'' then ''diesel''
                       else if str_includes currentFuelType ''KEROSENE'' then ''kerosene''
                       else ''gasoline''),
      brand = None\<rparr>"

text \<open>The body of the loop over the prices found in a line, for one price string.\<close>

definition doe_price_entries :: "string \<Rightarrow> string \<Rightarrow> string \<Rightarrow> string \<Rightarrow> string \<Rightarrow> price_record list" where
  "doe_price_entries currentFuelType line reg dat priceStr =
     (let pr = parseFloat priceStr in
      if isNaN pr \<or> js_le pr (Fin 0) \<or> js_gt pr (Fin 200) then []
      else if str_includes (toLowerCase line) ''page''
              \<or> str_includes (toLowerCase line) ''none''
              \<or> str_includes (toLowerCase line) ''monitoring'' then []
      else [doe_entry currentFuelType reg dat pr])"

text \<open>The loop over the lines; \<open>currentFuelType\<close> (\<open>None\<close> is \<^verbatim>\<open>null\<close>) is its state.  A
  fuel type is active when it is neither \<^verbatim>\<open>null\<close> nor empty.\<close>

fun doe_lines :: "string option \<Rightarrow> string list \<Rightarrow> string \<Rightarrow> string \<Rightarrow> price_record list" where
  "doe_lines currentFuelType [] reg dat = []"
| "doe_lines currentFuelType (l # ls) reg dat =
     (let line = trim l in
      if line = [] \<or> length line < 2 then doe_lines currentFuelType ls reg dat
      else
        (case str_match line fuel_header_re True of
           Some m \<Rightarrow> doe_lines (Some (toUpperCase (tmpl (grp m 1)))) ls reg dat
         | None \<Rightarrow>
             if truthy currentFuelType then
               concat (map (doe_price_entries (the currentFuelType) line reg dat)
                         (match_global line number2 False))
               @ doe_lines (if str_match line fuel_end_re True \<noteq> None then None else currentFuelType)
                   ls reg dat
             else doe_lines currentFuelType ls reg dat))"

definition doe_extractPricesFromText :: "string \<Rightarrow> string \<Rightarrow> string \<Rightarrow> price_record list" where
  "doe_extractPricesFromText text reg dat = doe_lines None (split_lines text) reg dat"


section \<open>The DTI parser\<close>

definition DTI_DATE :: string where
  "DTI_DATE = ''2025-02-01''"

definition DTI_SOURCE :: string where
  "DTI_SOURCE = ''DTI''"

definition DTI_REGION :: string where
  "DTI_REGION = ''National''"

text \<open>\<^verbatim>\<open>^(.*?)\s+\<close>, the head of every pattern, and \<^verbatim>\<open>\d+(?:g|ml|pcs|L|kg)\<close>.\<close>

definition dti_head :: regex where
  "dti_head = Seq Bol (Seq (Group 1 (Star False AnyChar)) spaces1)"

definition dti_unit :: regex where
  "dti_unit = Seq (plus digit)
     (Alt (lit ''g'') (Alt (lit ''ml'') (Alt (lit ''pcs'') (Alt (lit ''L'') (lit ''kg'')))))"

text \<open>The four patterns of the DTI parser, all with the flag \<^verbatim>\<open>i\<close>.\<close>

definition LINE_PATTERNS :: "regex list" where
  "LINE_PATTERNS =
     [Seq dti_head (Seq (Group 2 dti_unit) (Seq spaces1 (Seq (Group 3 number2) Eol))),
      Seq dti_head (Seq (Group 2 number2) (Seq spaces1 (Seq (Group 3 dti_unit) Eol))),
      Seq dti_head (Seq (Group 2 dti_unit) (Seq spaces1 (Seq (Group 3 number) Eol))),
      Seq dti_head (Seq (Group 2 number) Eol)]"

text \<open>The variables the pattern index assigns from the match: commodity, unit, price.\<close>

definition dti_fields :: "nat \<Rightarrow> regmatch \<Rightarrow> string option \<times> string option \<times> string option" where
  "dti_fields patternIndex m =
     (if patternIndex = 0 then (grp m 1, grp m 2, grp m 3)
      else if patternIndex = 1 then (grp m 1, grp m 3, grp m 2)
      else if patternIndex = 2 then (grp m 1, grp m 2, grp m 3)
      else if patternIndex = 3 then (grp m 1, Some ''unit'', grp m 2)
      else (None, None, None))"

text \<open>One line: the entries it adds.  Nothing looks at the value of the price.\<close>

definition dti_line :: "string \<Rightarrow> price_record list" where
  "dti_line trimmed =
     (case first_match LINE_PATTERNS 0 True trimmed of
        None \<Rightarrow> []
      | Some (patternIndex, m) \<Rightarrow>
          (case dti_fields patternIndex m of
             (com0, un, pr) \<Rightarrow>
               (let com = collapse_spaces (trim (tmpl com0))
                in if length com < 2
                      \<or> str_includes (toLowerCase com) ''page''
                      \<or> str_includes (toLowerCase com) ''srp''
                      \<or> str_includes (toLowerCase com) ''bulletin'' then []
                   else [\<lparr>commodity = com,
                          unit = (if truthy un then trim (tmpl un) else ''unit''),
                          source = DTI_SOURCE,
                          region = DTI_REGION,
                          date = DTI_DATE,
                          category = None,
                          hasRange = None,
                          filename = None,
                          price = parseFloat_grp pr,
                          fuelType = None,
                          brand = None\<rparr>])))"

fun dti_lines :: "string list \<Rightarrow> price_record list" where
  "dti_lines [] = []"
| "dti_lines (l # ls) =
     (let trimmed = trim l in
      if trimmed = [] \<or> length trimmed < 5 then dti_lines ls
      else dti_line trimmed @ dti_lines ls)"

text \<open>The text of a bulletin, as \<^verbatim>\<open>pdf-parse\<close> gives it, to the entries.\<close>

definition dti_parse_text :: "string \<Rightarrow> price_record list" where
  "dti_parse_text text = dti_lines (split_lines text)"


section \<open>Files, and the entry points\<close>

text \<open>
  The file system and the PDF decoder are parameters: \<open>readFileSync\<close> gives the bytes of
  a path or the message of the error it throws, \<open>pdf\<close> the text of a buffer or the message
  of the error it rejects with.  An \<^verbatim>\<open>Error\<close> object is its message.
\<close>

datatype js_error = Error string | TypeError

type_synonym reader = "string \<Rightarrow> string + string"

text \<open>\<^verbatim>\<open>path.basename\<close>: what follows the last slash, trailing slashes aside.\<close>

definition basename :: "string \<Rightarrow> string" where
  "basename p =
     rev (takeWhile (\<lambda>c. c \<noteq> CHR ''/'') (dropWhile (\<lambda>c. c = CHR ''/'') (rev p)))"

text \<open>The two \<^verbatim>\<open>try\<close> blocks every \<^verbatim>\<open>parse...PDF\<close> starts with.\<close>

definition read_pdf_text :: "reader \<Rightarrow> reader \<Rightarrow> string \<Rightarrow> js_error + string" where
  "read_pdf_text readFileSync pdf pdfPath =
     (case readFileSync pdfPath of
        Inl msg \<Rightarrow> Inl (Error (''Could not read PDF file: '' @ msg))
      | Inr dataBuffer \<Rightarrow>
          (case pdf dataBuffer of
             Inl msg \<Rightarrow> Inl (Error (''Could not parse PDF: '' @ msg))
           | Inr text \<Rightarrow> Inr text))"

text \<open>\<^verbatim>\<open>parseDAPDF\<close>.  A loop of a region parser that does not end gives no result: \<open>None\<close>.\<close>

definition parseDAPDF :: "reader \<Rightarrow> reader \<Rightarrow> string \<Rightarrow> string \<Rightarrow> (js_error + parse_result) option" where
  "parseDAPDF readFileSync pdf pdfPath reg =
     (case read_pdf_text readFileSync pdf pdfPath of
        Inl e \<Rightarrow> Some (Inl e)
      | Inr text \<Rightarrow>
          (case da_extractDateFromFilename (basename pdfPath) of
             None \<Rightarrow> Some (Inl TypeError)
           | Some dat \<Rightarrow> map_option Inr (da_extractPricesFromText text reg dat)))"

definition parseDOEPDF :: "reader \<Rightarrow> reader \<Rightarrow> string \<Rightarrow> string \<Rightarrow> js_error + price_record list" where
  "parseDOEPDF readFileSync pdf pdfPath reg =
     (case read_pdf_text readFileSync pdf pdfPath of
        Inl e \<Rightarrow> Inl e
      | Inr text \<Rightarrow>
          (case doe_extractDateFromFilename (basename pdfPath) of
             None \<Rightarrow> Inl TypeError
           | Some dat \<Rightarrow> Inr (doe_extractPricesFromText text reg dat)))"

definition parseDTIPDF :: "reader \<Rightarrow> reader \<Rightarrow> string \<Rightarrow> js_error + price_record list" where
  "parseDTIPDF readFileSync pdf pdfPath =
     (case read_pdf_text readFileSync pdf pdfPath of
        Inl e \<Rightarrow> Inl e
      | Inr text \<Rightarrow> Inr (dti_parse_text text))"

text \<open>A file \<^verbatim>\<open>getAllPDFs\<close> found, and what the batch functions print.\<close>

record pdf_file =
  pdf_path :: string
  pdf_filename :: string
  pdf_region :: string

datatype console_line =
    Starting nat                    \<comment> \<open>\<^verbatim>\<open>Found n PDF files to process\<close>\<close>
  | Processing string string        \<comment> \<open>\<^verbatim>\<open>Processing: filename (region)\<close>\<close>
  | Extracted nat                   \<comment> \<open>\<^verbatim>\<open>Extracted n price entries\<close>\<close>
  | ExtractedRanges nat             \<comment> \<open>\<^verbatim>\<open>Extracted n price range entries\<close>\<close>
  | ErrorProcessing string js_error \<comment> \<open>\<^verbatim>\<open>console.error: Error processing filename: message\<close>\<close>
  | Found nat                       \<comment> \<open>\<^verbatim>\<open>Found n price entries\<close>\<close>
  | NoEntries                       \<comment> \<open>\<^verbatim>\<open>No entries found ...\<close> and the usage line\<close>
  | FirstTen "price_record list"    \<comment> \<open>\<^verbatim>\<open>First 10 entries:\<close> and their JSON\<close>
  | Saved                           \<comment> \<open>\<^verbatim>\<open>Saved first 10 entries to ...\<close>\<close>
  | CouldNotWrite string            \<comment> \<open>\<^verbatim>\<open>console.warn: Could not write output file\<close>\<close>
  | FatalError js_error             \<comment> \<open>\<^verbatim>\<open>console.error: Error: message\<close>\<close>

text \<open>The lines \<^verbatim>\<open>console.error\<close> prints for a file that failed.\<close>

fun is_error_line :: "console_line \<Rightarrow> bool" where
  "is_error_line (ErrorProcessing f e) = True"
| "is_error_line _ = False"

record da_batch =
  allResults :: "price_record list"
  allPriceRanges :: "price_range_record list"
  da_console :: "console_line list"

text \<open>\<^verbatim>\<open>result.filename = pdf.filename\<close>.\<close>

definition with_filename :: "pdf_file \<Rightarrow> 'a entry_scheme \<Rightarrow> 'a entry_scheme" where
  "with_filename f x = x\<lparr>filename := Some (pdf_filename f)\<rparr>"

text \<open>The loop of \<^verbatim>\<open>parseAllDAPDFs\<close> over the files.  The \<^verbatim>\<open>catch\<close> takes every error of
  \<^verbatim>\<open>parseDAPDF\<close>, prints it and goes on with the next file.\<close>

fun da_batch_loop :: "reader \<Rightarrow> reader \<Rightarrow> pdf_file list \<Rightarrow> da_batch option" where
  "da_batch_loop readFileSync pdf [] =
     Some \<lparr>allResults = [], allPriceRanges = [], da_console = []\<rparr>"
| "da_batch_loop readFileSync pdf (f # fs) =
     (case parseDAPDF readFileSync pdf (pdf_path f) (pdf_region f) of
        None \<Rightarrow> None
      | Some (Inl e) \<Rightarrow>
          map_option
            (\<lambda>b. b\<lparr>da_console := Processing (pdf_filename f) (pdf_region f)
                                   # ErrorProcessing (pdf_filename f) e # da_console b\<rparr>)
            (da_batch_loop readFileSync pdf fs)
      | Some (Inr r) \<Rightarrow>
          map_option
            (\<lambda>b. \<lparr>allResults = map (with_filename f) (results r) @ allResults b,
                  allPriceRanges = map (with_filename f) (priceRanges r) @ allPriceRanges b,
                  da_console = Processing (pdf_filename f) (pdf_region f)
                               # Extracted (length (results r))
                               # ExtractedRanges (length (priceRanges r)) # da_console b\<rparr>)
            (da_batch_loop readFileSync pdf fs))"

definition parseAllDAPDFs :: "reader \<Rightarrow> reader \<Rightarrow> pdf_file list \<Rightarrow> da_batch option" where
  "parseAllDAPDFs readFileSync pdf pdfs =
     map_option (\<lambda>b. b\<lparr>da_console := Starting (length pdfs) # da_console b\<rparr>)
       (da_batch_loop readFileSync pdf pdfs)"

record doe_batch =
  doe_allResults :: "price_record list"
  doe_console :: "console_line list"

fun doe_batch_loop :: "reader \<Rightarrow> reader \<Rightarrow> pdf_file list \<Rightarrow> doe_batch" where
  "doe_batch_loop readFileSync pdf [] = \<lparr>doe_allResults = [], doe_console = []\<rparr>"
| "doe_batch_loop readFileSync pdf (f # fs) =
     (let b = doe_batch_loop readFileSync pdf fs in
      case parseDOEPDF readFileSync pdf (pdf_path f) (pdf_region f) of
        Inl e \<Rightarrow>
          b\<lparr>doe_console := Processing (pdf_filename f) (pdf_region f)
                            # ErrorProcessing (pdf_filename f) e # doe_console b\<rparr>
      | Inr rs \<Rightarrow>
          \<lparr>doe_allResults = map (with_filename f) rs @ doe_allResults b,
           doe_console = Processing (pdf_filename f) (pdf_region f)
                         # Extracted (length rs) # doe_console b\<rparr>)"

definition parseAllDOEPDFs :: "reader \<Rightarrow> reader \<Rightarrow> pdf_file list \<Rightarrow> doe_batch" where
  "parseAllDOEPDFs readFileSync pdf pdfs =
     (let b = doe_batch_loop readFileSync pdf pdfs
      in b\<lparr>doe_console := Starting (length pdfs) # doe_console b\<rparr>)"

text \<open>
  The \<^verbatim>\<open>try\<close> block of the DTI entry point, for the path it settled on.  \<open>writeFileSync\<close>
  gives the message of the error it throws, if any.  The result: what is printed, what
  \<^verbatim>\<open>latest_prices_dti.json\<close> holds afterwards if it was written (the entries whose JSON
  it is), and the exit code if the process is ended.
\<close>

record dti_run =
  dti_console :: "console_line list"
  dti_written :: "price_record list option"
  dti_exit :: "nat option"

definition dti_main :: "reader \<Rightarrow> reader \<Rightarrow> (price_record list \<Rightarrow> string option) \<Rightarrow> string \<Rightarrow> dti_run" where
  "dti_main readFileSync pdf writeFileSync pdfPath =
     (case parseDTIPDF readFileSync pdf pdfPath of
        Inl e \<Rightarrow> \<lparr>dti_console = [FatalError e], dti_written = None, dti_exit = Some 1\<rparr>
      | Inr entries \<Rightarrow>
          if length entries = 0
          then \<lparr>dti_console = [Found (length entries), NoEntries], dti_written = None, dti_exit = None\<rparr>
          else
            (let first10 = take 10 entries in
             case writeFileSync first10 of
               None \<Rightarrow> \<lparr>dti_console = [Found (length entries), FirstTen first10, Saved],
                         dti_written = Some first10, dti_exit = None\<rparr>
             | Some msg \<Rightarrow> \<lparr>dti_console = [Found (length entries), FirstTen first10, CouldNotWrite msg],
                             dti_written = None, dti_exit = None\<rparr>))"


section \<open>The unit lexicon\<close>

definition unitMap :: "(string \<times> string list) list" where
  "unitMap =
     [(''per kg'', [''per kg'', ''per kilogram'', ''kg'', ''kilogram'', ''kilo'']),
      (''per liter'', [''per liter'', ''per l'', ''liter'', ''litro'', ''l'']),
      (''per piece'', [''per piece'', ''per pc'', ''piece'', ''pc'', ''pcs'']),
      (''per dozen'', [''per dozen'', ''per dz'', ''dozen'', ''dz'']),
      (''per sack'', [''per sack'', ''sack'', ''sacks'']),
      (''per bundle'', [''per bundle'', ''bundle'', ''bundles''])]"

text \<open>The test of one variation: the letter \<^verbatim>\<open>l\<close> counts only as the whole text.\<close>

definition variant_matches :: "string \<Rightarrow> string \<Rightarrow> bool" where
  "variant_matches lowerText variant =
     (if variant = ''l'' then lowerText = ''l'' \<or> lowerText = ''per l''
      else str_includes lowerText variant)"

fun first_unit :: "(string \<times> string list) list \<Rightarrow> string \<Rightarrow> string" where
  "first_unit [] lowerText = ''per unit''"
| "first_unit ((standardUnit, variations) # rest) lowerText =
     (if list_ex (variant_matches lowerText) variations then standardUnit
      else first_unit rest lowerText)"

definition extractUnit :: "string \<Rightarrow> string" where
  "extractUnit text = (if text = [] then ''per unit'' else first_unit unitMap (trim (toLowerCase text)))"


section \<open>Properties\<close>

subsection \<open>Unit extraction\<close>

lemma extractUnit_examples:
  "extractUnit ''per kilogram'' = ''per kg''"
  "extractUnit ''gallon'' = ''per unit''"
  "extractUnit ''L'' = ''per liter''"
  by code_simp+

lemma startsWith_append: "startsWith s (a @ b) \<Longrightarrow> startsWith s a"
  by (induction s a rule: startsWith.induct) auto

lemma str_includes_append: "str_includes s (a @ b) \<Longrightarrow> str_includes s a"
  by (induction s) (auto dest: startsWith_append)

lemma first_unit_liter:
  assumes "first_unit unitMap t = ''per liter''"
  shows "t = ''l'' \<or> str_includes t ''per l'' \<or> str_includes t ''liter'' \<or> str_includes t ''litro''"
proof -
  have "str_includes t ''per liter'' \<Longrightarrow> str_includes t ''per l''"
    using str_includes_append[of t "''per l''" "''iter''"] by simp
  moreover from assms have "list_ex (variant_matches t) [''per liter'', ''per l'', ''liter'', ''litro'', ''l'']"
    by (simp add: unitMap_def split: if_splits)
  ultimately show ?thesis
    by (auto simp: variant_matches_def)
qed

text \<open>
  Claim C8.  \<open>extractUnit\<close> maps \<^verbatim>\<open>per kilogram\<close> to \<^verbatim>\<open>per kg\<close>; \<^verbatim>\<open>gallon\<close>, which has the
  letter l but no liter variation, does not give \<^verbatim>\<open>per liter\<close>; and whenever the result is
  \<^verbatim>\<open>per liter\<close>, the trimmed lower-cased input is exactly \<^verbatim>\<open>l\<close> or includes one of the
  variations \<^verbatim>\<open>per l\<close>, \<^verbatim>\<open>liter\<close>, \<^verbatim>\<open>litro\<close> (\<^verbatim>\<open>per liter\<close> includes \<^verbatim>\<open>per l\<close>): the letter
  alone never counts as a part of another word.
\<close>

theorem extractUnit_liter_only_whole_token:
  "extractUnit ''per kilogram'' = ''per kg''
   \<and> extractUnit ''gallon'' \<noteq> ''per liter''
   \<and> (\<forall>text. extractUnit text = ''per liter'' \<longrightarrow>
         trim (toLowerCase text) = ''l''
         \<or> str_includes (trim (toLowerCase text)) ''per l''
         \<or> str_includes (trim (toLowerCase text)) ''liter''
         \<or> str_includes (trim (toLowerCase text)) ''litro'')"
proof (intro conjI allI impI)
  show "extractUnit ''per kilogram'' = ''per kg''" by (rule extractUnit_examples(1))
  show "extractUnit ''gallon'' \<noteq> ''per liter''" by (simp add: extractUnit_examples(2))
next
  fix t
  assume a: "extractUnit t = ''per liter''"
  then have "t \<noteq> []" by (auto simp: extractUnit_def)
  with a have "first_unit unitMap (trim (toLowerCase t)) = ''per liter''"
    by (simp add: extractUnit_def)
  then show "trim (toLowerCase t) = ''l''
         \<or> str_includes (trim (toLowerCase t)) ''per l''
         \<or> str_includes (trim (toLowerCase t)) ''liter''
         \<or> str_includes (trim (toLowerCase t)) ''litro''"
    by (rule first_unit_liter)
qed

text \<open>The input \<^verbatim>\<open>L\<close> is the whole token, whatever its case.\<close>

theorem extractUnit_liter_only_whole_token_witness:
  "extractUnit ''L'' = ''per liter''
   \<and> (trim (toLowerCase ''L'') = ''l''
      \<or> str_includes (trim (toLowerCase ''L'')) ''per l''
      \<or> str_includes (trim (toLowerCase ''L'')) ''liter''
      \<or> str_includes (trim (toLowerCase ''L'')) ''litro'')
   \<and> trim (toLowerCase ''L'') = ''l''"
proof -
  have h: "extractUnit ''L'' = ''per liter''" by (rule extractUnit_examples(3))
  from extractUnit_liter_only_whole_token
  have "\<forall>text. extractUnit text = ''per liter'' \<longrightarrow>
         trim (toLowerCase text) = ''l''
         \<or> str_includes (trim (toLowerCase text)) ''per l''
         \<or> str_includes (trim (toLowerCase text)) ''liter''
         \<or> str_includes (trim (toLowerCase text)) ''litro''"
    by (elim conjE)
  from this[rule_format, OF h] have d: "trim (toLowerCase ''L'') = ''l''
      \<or> str_includes (trim (toLowerCase ''L'')) ''per l''
      \<or> str_includes (trim (toLowerCase ''L'')) ''liter''
      \<or> str_includes (trim (toLowerCase ''L'')) ''litro''" .
  have e: "trim (toLowerCase ''L'') = ''l''" by code_simp
  from h d e show ?thesis by (intro conjI)
qed



subsection \<open>The range parsers: every loop ends, and where an entry comes from\<close>


lemmas num_defs = parseFloat_def parseFloat_grp_def unsigned_literal_def digits_val_def digit_val_def
  exponent_part_def pow10_def isNaN_def js_le_def js_gt_def js_ge_def is_digit_def is_space_def

lemmas js_cmp_defs = isNaN_def js_le_def js_gt_def js_ge_def













lemma generic_line_prices:
  "r \<in> set (fst (generic_line line reg dat)) \<Longrightarrow>
     \<exists>com un pr. r \<in> set (generic_price_entries com un pr reg dat)"
  unfolding generic_line_def
  by (auto simp: Let_def split: option.splits prod.splits if_splits)


lemma generic_lines_prices:
  "r \<in> set (fst (generic_lines ls reg dat)) \<Longrightarrow>
     \<exists>com un pr. r \<in> set (generic_price_entries com un pr reg dat)"
proof (induction ls)
  case Nil
  then show ?case by simp
next
  case (Cons l ls)
  show ?case
  proof (cases "trim l = [] \<or> length (trim l) < 3")
    case True
    with Cons show ?thesis by (simp add: Let_def)
  next
    case False
    with Cons.prems have "r \<in> set (fst (generic_line (trim l) reg dat)) \<or> r \<in> set (fst (generic_lines ls reg dat))"
      by (auto simp: Let_def split: prod.splits)
    then show ?thesis using generic_line_prices Cons.IH by blast
  qed
qed


subsection \<open>The generic parser reads no range\<close>

text \<open>If a pattern finds a way to a continuation that succeeds, it finds one to any
  continuation that succeeds wherever the first does.\<close>

definition succeeds_more :: "'a cont \<Rightarrow> 'b cont \<Rightarrow> bool" where
  "succeeds_more k k' = (\<forall>pos s c. k pos s c \<noteq> None \<longrightarrow> k' pos s c \<noteq> None)"

lemma succeeds_moreD: "succeeds_more k k' \<Longrightarrow> k pos s c \<noteq> None \<Longrightarrow> k' pos s c \<noteq> None"
  unfolding succeeds_more_def by blast

lemma star_iter_succeeds_more:
  assumes f: "\<And>(k :: 'a cont) (k' :: 'b cont). succeeds_more k k' \<Longrightarrow> succeeds_more (f k) (f' k')"
    and k: "succeeds_more k k'"
  shows "succeeds_more (star_iter n g f k) (star_iter n g f' k')"
proof (induction n)
  case 0
  from k show ?case by (simp add: succeeds_more_def)
next
  case (Suc n)
  show ?case unfolding succeeds_more_def
  proof (intro allI impI)
    fix pos :: nat and s :: string and c :: captures
    let ?k1 = "\<lambda>pos' s' c'. if length s' < length s then star_iter n g f k pos' s' c' else None"
    let ?k1' = "\<lambda>pos' s' c'. if length s' < length s then star_iter n g f' k' pos' s' c' else None"
    have inner: "succeeds_more ?k1 ?k1'"
      using Suc.IH by (auto simp: succeeds_more_def)
    assume a: "star_iter (Suc n) g f k pos s c \<noteq> None"
    then have "f ?k1 pos s c \<noteq> None \<or> k pos s c \<noteq> None"
      by (auto split: if_splits option.splits)
    then have "f' ?k1' pos s c \<noteq> None \<or> k' pos s c \<noteq> None"
      using succeeds_moreD[OF f[OF inner]] succeeds_moreD[OF k] by blast
    then show "star_iter (Suc n) g f' k' pos s c \<noteq> None"
      by (auto split: if_splits option.splits)
  qed
qed

lemma rmatch_succeeds_more:
  "succeeds_more (k :: 'a cont) (k' :: 'b cont) \<Longrightarrow> succeeds_more (rmatch r ci k) (rmatch r ci k')"
proof (induction r arbitrary: k k')
  case (Seq a b)
  from Seq.IH(1)[OF Seq.IH(2)[OF Seq.prems]] show ?case by simp
next
  case (Alt a b)
  show ?case unfolding succeeds_more_def
  proof (intro allI impI)
    fix pos :: nat and s :: string and c :: captures
    assume "rmatch (Alt a b) ci k pos s c \<noteq> None"
    then have "rmatch a ci k pos s c \<noteq> None \<or> rmatch b ci k pos s c \<noteq> None"
      by (auto split: option.splits)
    then have "rmatch a ci k' pos s c \<noteq> None \<or> rmatch b ci k' pos s c \<noteq> None"
      using succeeds_moreD[OF Alt.IH(1)[OF Alt.prems]] succeeds_moreD[OF Alt.IH(2)[OF Alt.prems]]
      by blast
    then show "rmatch (Alt a b) ci k' pos s c \<noteq> None"
      by (auto split: option.splits)
  qed
next
  case (Star g a)
  have "succeeds_more (star_iter n g (rmatch a ci) k) (star_iter n g (rmatch a ci) k')" for n
    by (rule star_iter_succeeds_more[OF Star.IH Star.prems])
  then show ?case by (simp add: succeeds_more_def)
next
  case (Group n a)
  show ?case unfolding succeeds_more_def
  proof (intro allI impI)
    fix pos :: nat and s :: string and c :: captures
    have "succeeds_more (\<lambda>pos' s' c'. k pos' s' ((n, take (pos' - pos) s) # c'))
                        (\<lambda>pos' s' c'. k' pos' s' ((n, take (pos' - pos) s) # c'))"
      using Group.prems by (simp add: succeeds_more_def)
    from succeeds_moreD[OF Group.IH[OF this]]
    show "rmatch (Group n a) ci k pos s c \<noteq> None \<Longrightarrow> rmatch (Group n a) ci k' pos s c \<noteq> None"
      by simp
  qed
qed (auto simp: succeeds_more_def split: list.splits)

text \<open>Where a pattern \<open>Seq p q\<close> matches, \<open>p\<close> matches.\<close>

lemma match_here_head:
  assumes "match_here (Seq p q) ci pos s \<noteq> None"
  shows "match_here p ci pos s \<noteq> None"
proof -
  let ?final = "\<lambda>pos' s' c'. Some \<lparr>mstart = pos, mend = pos', mtext = take (pos' - pos) s, mrest = s', mcaps = c'\<rparr>"
  have "succeeds_more (rmatch q ci ?final) ?final" by (simp add: succeeds_more_def)
  from succeeds_moreD[OF rmatch_succeeds_more[OF this, of p ci]] assms
  show ?thesis by (simp add: match_here_def)
qed

lemma search_head: "search (Seq p q) ci pos s \<noteq> None \<Longrightarrow> search p ci pos s \<noteq> None"
proof (induction s arbitrary: pos)
  case Nil
  then show ?case using match_here_head by simp
next
  case (Cons x xs)
  show ?case
  proof (cases "match_here (Seq p q) ci pos (x # xs)")
    case None
    with Cons.prems have "search (Seq p q) ci (Suc pos) xs \<noteq> None" by simp
    from Cons.IH[OF this] show ?thesis by (simp split: option.splits)
  next
    case (Some m)
    then have "match_here p ci pos (x # xs) \<noteq> None" using match_here_head[of p q ci pos "x # xs"] by simp
    then show ?thesis by (auto split: option.splits)
  qed
qed

text \<open>The first pattern of the generic parser matches whatever the fourth or the fifth
  matches, so the index the loop ends with is 0, 1 or 2, and no range is ever read.\<close>

lemma generic_first_match_index:
  assumes "first_match PRICE_PATTERNS 0 True line = Some (j, m)"
  shows "j < 3"
proof -
  obtain p1 p2 p3 q4 q5 where ps: "PRICE_PATTERNS = [p1, p2, p3, Seq p1 q4, Seq p1 q5]"
    by (simp add: PRICE_PATTERNS_def)
  show ?thesis
  proof (cases "str_match line p1 True")
    case (Some m1)
    with assms show ?thesis unfolding ps by simp
  next
    case None
    then have n1: "search p1 True 0 line = None" by (simp add: str_match_def)
    have "search (Seq p1 q) True 0 line = None" for q
      using search_head[of p1 q True 0 line] n1 by (cases "search (Seq p1 q) True 0 line") auto
    then have "str_match line (Seq p1 q4) True = None" "str_match line (Seq p1 q5) True = None"
      by (simp_all add: str_match_def)
    with assms None show ?thesis unfolding ps
      by (auto split: option.splits)
  qed
qed

lemma generic_line_no_range: "snd (generic_line line reg dat) = []"
proof (cases "first_match PRICE_PATTERNS 0 True line")
  case None
  then show ?thesis by (simp add: generic_line_def)
next
  case (Some jm)
  obtain j m where jm: "jm = (j, m)" by (cases jm)
  with Some generic_first_match_index have "j < 3" by blast
  then have "j = 0 \<or> j = 1 \<or> j = 2" by auto
  with Some jm show ?thesis
    by (auto simp: generic_line_def generic_fields_def generic_range_entries_def truthy_def Let_def)
qed

lemma generic_lines_no_range: "snd (generic_lines ls reg dat) = []"
  by (induction ls) (auto simp: Let_def generic_line_no_range split: prod.splits dest: sndI)

lemma parseGenericFormat_no_range:
  "\<exists>ps. parseGenericFormat lines reg dat = Some \<lparr>results = ps, priceRanges = []\<rparr>"
  using generic_lines_no_range[of lines reg dat]
  by (auto simp: parseGenericFormat_def split: prod.splits)

subsection \<open>Worked examples of the NCR parser\<close>

lemma ncr_line1: "trim ''Balintawak (Cloverleaf) Market'' = ''Balintawak (Cloverleaf) Market''"
  "isMarketName ''Balintawak (Cloverleaf) Market''"
  "trim ''45.00-48.00'' = ''45.00-48.00''"
  "\<not> isMarketName ''45.00-48.00''"
  by code_simp+

lemma ncr_line2:
  "map (\<lambda>p. exec_all p False ''45.00-48.00'') ncr_pricePatterns =
     [Some [\<lparr>mstart = 0, mend = 11, mtext = ''45.00-48.00'', mrest = [], mcaps = [(2, ''48.00''), (1, ''45.00'')]\<rparr>],
      Some [], Some []]"
  by code_simp

lemma ncr_scenario:
  "parseNCRFormat [''Balintawak (Cloverleaf) Market'', ''45.00-48.00''] ''NCR'' ''2025-06-26'' =
     Some \<lparr>results = [],
           priceRanges =
             [\<lparr>commodity = ''Rice at Balintawak (Cloverleaf) Market'', unit = ''per kg'', source = ''DA'',
               region = ''NCR'', date = ''2025-06-26'', category = Some ''rice'', hasRange = Some True,
               filename = None, minPrice = Fin 45, maxPrice = Fin 48, averagePrice = Fin 46.5,
               market = Some ''Balintawak (Cloverleaf) Market'', category_header = None\<rparr>]\<rparr>"
  using ncr_line2
  by (simp add: parseNCRFormat_def ncr_line1 ncr_pricePatterns_def ncr_match_entries_def range_re_def
        grp_def num_defs DA_SOURCE_def Let_def)

lemma ncr_concat1:
  "trim ''45.00-48.007.00-8.00'' = ''45.00-48.007.00-8.00''"
  "\<not> isMarketName ''45.00-48.007.00-8.00''"
  "trim ''48.00-45.00'' = ''48.00-45.00''"
  "\<not> isMarketName ''48.00-45.00''"
  by code_simp+

lemma ncr_concat3:
  "map (\<lambda>p. exec_all p False ''45.00-48.007.00-8.00'') ncr_pricePatterns =
     [Some [\<lparr>mstart = 0, mend = 11, mtext = ''45.00-48.00'', mrest = ''7.00-8.00'', mcaps = [(2, ''48.00''), (1, ''45.00'')]\<rparr>,
            \<lparr>mstart = 11, mend = 20, mtext = ''7.00-8.00'', mrest = [], mcaps = [(2, ''8.00''), (1, ''7.00'')]\<rparr>],
      Some [\<lparr>mstart = 0, mend = 20, mtext = ''45.00-48.007.00-8.00'', mrest = [],
             mcaps = [(4, ''8.00''), (3, ''7.00''), (2, ''48.00''), (1, ''45.00'')]\<rparr>],
      Some []]"
  "map (\<lambda>p. exec_all p False ''48.00-45.00'') ncr_pricePatterns =
     [Some [\<lparr>mstart = 0, mend = 11, mtext = ''48.00-45.00'', mrest = [], mcaps = [(2, ''45.00''), (1, ''48.00'')]\<rparr>],
      Some [], Some []]"
  by code_simp+



subsection \<open>Bounds of a range\<close>









subsection \<open>Ranges printed one after the other\<close>

text \<open>
  Claim C4.  The claim is that a line with n range tokens gives n entries.  The NCR parser
  runs all three of its patterns over the line, and the second and third, which match two
  and four ranges printed without a separator, push the first range of their match once
  more: the line \<^verbatim>\<open>45.00-48.007.00-8.00\<close> (the example in the comment of the second pattern)
  holds two ranges and gives three entries, the first range twice.
\<close>

theorem ncr_concatenated_ranges_counted_twice:
  "map_option (\<lambda>res. (results res, map (\<lambda>r. (commodity r, minPrice r, maxPrice r, averagePrice r)) (priceRanges res)))
     (parseNCRFormat [''45.00-48.007.00-8.00''] ''NCR'' ''2025-06-26'') =
   Some ([], [(''Rice'', Fin 45, Fin 48, Fin 46.5), (''Rice'', Fin 7, Fin 8, Fin 7.5), (''Rice'', Fin 45, Fin 48, Fin 46.5)])"
  using ncr_concat3(1)
  by (simp add: parseNCRFormat_def ncr_concat1 ncr_pricePatterns_def ncr_match_entries_def range_re_def
        grp_def num_defs DA_SOURCE_def Let_def)


text \<open>The two-line scenario of the claim: one entry, 45 to 48, average 46.5.\<close>

lemma ncr_scenario_one_entry:
  "map_option (\<lambda>res. map (\<lambda>r. (market r, minPrice r, maxPrice r, averagePrice r)) (priceRanges res))
     (parseNCRFormat [''Balintawak (Cloverleaf) Market'', ''45.00-48.00''] ''NCR'' ''2025-06-26'') =
   Some [(Some ''Balintawak (Cloverleaf) Market'', Fin 45, Fin 48, Fin 46.5)]"
  by (simp add: ncr_scenario)

subsection \<open>The average of a range\<close>












subsection \<open>The generic parser and a line with a range\<close>

lemma generic1:
  "trim ''Rice 45.50-55.75'' = ''Rice 45.50-55.75''"
  "collapse_spaces (trim ''Rice'') = ''Rice''"
  "\<not> generic_is_header ''Rice''"
  "normalizeCommodityType ''Rice'' = ''rice''"
  "first_match PRICE_PATTERNS 0 True ''Rice 45.50-55.75'' =
     Some (0, \<lparr>mstart = 0, mend = 10, mtext = ''Rice 45.50'', mrest = ''-55.75'',
               mcaps = [(2, ''45.50''), (1, ''Rice'')]\<rparr>)"
  by code_simp+

lemma generic_floats: "parseFloat ''45.50'' = Fin 45.5"
  by (simp add: num_defs)

lemma generic_range_line:
  "parseGenericFormat [''Rice 45.50-55.75''] ''Region I'' ''2025-06-26'' =
     Some \<lparr>results =
             [\<lparr>commodity = ''Rice'', unit = ''per kg'', source = ''DA'', region = ''Region I'',
               date = ''2025-06-26'', category = Some ''rice'', hasRange = Some False, filename = None,
               price = Fin 45.5, fuelType = None, brand = None\<rparr>],
           priceRanges = []\<rparr>"
  by (simp add: parseGenericFormat_def generic_line_def generic1 generic_fields_def generic_floats
        generic_price_entries_def generic_range_entries_def truthy_def grp_def parseFloat_grp_def
        js_cmp_defs DA_SOURCE_def Let_def)

text \<open>
  Claim C3.  The claim is that the line \<^verbatim>\<open>Rice 45.50-55.75\<close> gives a range entry with the
  bounds 45.50 and 55.75.  The comment of the fourth pattern says so too
  (\<^verbatim>\<open>Price range [Commodity] [Min-Max] (e.g., "Rice 45.50-55.75")\<close>), but the first pattern,
  which is not anchored at the end of the line, matches the head \<^verbatim>\<open>Rice 45.50\<close> of it and
  wins: the line gives the single price 45.5 and no range.  The same holds for every line
  the fourth or the fifth pattern matches, so the generic parser returns no range for any
  input.
\<close>

theorem generic_range_line_read_as_single_price:
  "parseGenericFormat [''Rice 45.50-55.75''] ''Region I'' ''2025-06-26'' =
     Some \<lparr>results =
             [\<lparr>commodity = ''Rice'', unit = ''per kg'', source = ''DA'', region = ''Region I'',
               date = ''2025-06-26'', category = Some ''rice'', hasRange = Some False, filename = None,
               price = Fin 45.5, fuelType = None, brand = None\<rparr>],
           priceRanges = []\<rparr>
   \<and> (\<exists>ps. parseGenericFormat lines reg dat = Some \<lparr>results = ps, priceRanges = []\<rparr>)"
  using generic_range_line parseGenericFormat_no_range by (rule conjI)

subsection \<open>Dates from file names\<close>

text \<open>The two file names of the claim: no pattern matches either (the month name needs white
  space around it), so both get the default date of the parser, which for the DA parser
  is 2025-06-26.\<close>

lemma date_scenarios:
  "da_extractDateFromFilename ''Price-Monitoring-June-26-2025.pdf'' = Some ''2025-06-26''"
  "da_extractDateFromFilename ''BNPC_SRP_BULLETIN_01_FEBRUARY_2025.pdf'' = Some DA_DATE"
  "doe_extractDateFromFilename ''Price-Monitoring-June-26-2025.pdf'' = Some ''2025-06-17''"
  "doe_extractDateFromFilename ''BNPC_SRP_BULLETIN_01_FEBRUARY_2025.pdf'' = Some DOE_DATE"
  by code_simp+

text \<open>
  Claim C6.  The claim is that the result is always a well-formed calendar date.  The
  first pattern, two, two and four digits, matches every run of eight digits, so the fifth
  (\<^verbatim>\<open>YYYYMMDD\<close>) is never reached: \<^verbatim>\<open>20250626.pdf\<close> is read as month 20, day 25, year 0626 by
  both parsers.  In the DA parser the month name \<^verbatim>\<open>June\<close> has length 4 and is taken for a
  year.
\<close>

theorem date_of_yyyymmdd_file_name:
  "da_extractDateFromFilename ''20250626.pdf'' = Some ''0626-20-25''
   \<and> doe_extractDateFromFilename ''20250626.pdf'' = Some ''0626-20-25''
   \<and> da_extractDateFromFilename ''June 26, 2025.pdf'' = Some ''June-26-2025''"
  by (intro conjI; code_simp)

subsection \<open>Fuel prices\<close>

text \<open>The prices the DOE parser keeps: \<open>0 < price <= 200\<close>.\<close>

definition in_fuel_price_range :: "jsnum \<Rightarrow> bool" where
  "in_fuel_price_range pr = (js_lt (Fin 0) pr \<and> js_le pr (Fin 200))"




lemma doe_lines_header:
  assumes "\<not> (trim l = [] \<or> length (trim l) < 2)"
    and "str_match (trim l) fuel_header_re True = Some m"
  shows "doe_lines cur (l # ls) reg dat = doe_lines (Some (toUpperCase (tmpl (grp m 1)))) ls reg dat"
  using assms by (simp add: Let_def)

lemma doe1:
  "trim ''RON 95'' = ''RON 95''" "trim ''56.49'' = ''56.49''" "trim ''58.49'' = ''58.49''"
  "trim ''Page 56.49'' = ''Page 56.49''"
  "str_match ''RON 95'' fuel_header_re True =
     Some \<lparr>mstart = 0, mend = 6, mtext = ''RON 95'', mrest = [], mcaps = [(1, ''RON 95'')]\<rparr>"
  "toUpperCase ''RON 95'' = ''RON 95''"
  "str_match ''56.49'' fuel_header_re True = None" "str_match ''56.49'' fuel_end_re True = None"
  "str_match ''58.49'' fuel_header_re True = None" "str_match ''58.49'' fuel_end_re True = None"
  "str_match ''Page 56.49'' fuel_header_re True = None" "str_match ''Page 56.49'' fuel_end_re True = None"
  "match_global ''56.49'' number2 False = [''56.49'']"
  "match_global ''58.49'' number2 False = [''58.49'']"
  "match_global ''Page 56.49'' number2 False = [''56.49'']"
  "\<not> str_includes (toLowerCase ''56.49'') ''page''" "\<not> str_includes (toLowerCase ''56.49'') ''none''"
  "\<not> str_includes (toLowerCase ''56.49'') ''monitoring''"
  "\<not> str_includes (toLowerCase ''58.49'') ''page''" "\<not> str_includes (toLowerCase ''58.49'') ''none''"
  "\<not> str_includes (toLowerCase ''58.49'') ''monitoring''"
  "str_includes (toLowerCase ''Page 56.49'') ''page''"
  by code_simp+

lemma doe_floats:
  "parseFloat ''56.49'' = Fin 56.49" "parseFloat ''58.49'' = Fin 58.49"
  by (simp_all add: num_defs)






subsection \<open>Single prices\<close>

lemma dti1:
  "split_lines ''Sample item 0.00'' = [''Sample item 0.00'']"
  "trim ''Sample item 0.00'' = ''Sample item 0.00''"
  "collapse_spaces (trim ''Sample item'') = ''Sample item''"
  "toLowerCase ''Sample item'' = ''sample item''"
  "\<not> str_includes ''sample item'' ''page''"
  "\<not> str_includes ''sample item'' ''srp''"
  "\<not> str_includes ''sample item'' ''bulletin''"
  "trim ''unit'' = ''unit''"
  "first_match LINE_PATTERNS 0 True ''Sample item 0.00'' =
     Some (3, \<lparr>mstart = 0, mend = 16, mtext = ''Sample item 0.00'', mrest = [],
               mcaps = [(2, ''0.00''), (1, ''Sample item'')]\<rparr>)"
  by code_simp+

lemma dti_floats: "parseFloat ''0.00'' = Fin 0"
  by (simp add: num_defs)

text \<open>The generic parser and the DOE parser do test the price of every entry.\<close>

lemma generic_price_entries_ok:
  "r \<in> set (generic_price_entries com un pr reg dat) \<Longrightarrow>
     js_lt (Fin 0) (price r) \<and> js_lt (price r) (Fin 10000)"
  by (auto simp: generic_price_entries_def Let_def js_gt_def split: if_splits)

lemma generic_prices_checked:
  assumes "parseGenericFormat lines reg dat = Some res" and "r \<in> set (results res)"
  shows "js_lt (Fin 0) (price r) \<and> js_lt (price r) (Fin 10000)"
proof -
  from assms have "r \<in> set (fst (generic_lines lines reg dat))"
    by (auto simp: parseGenericFormat_def split: prod.splits)
  from generic_lines_prices[OF this] generic_price_entries_ok show ?thesis by blast
qed

lemma doe_price_entries_ok:
  assumes "r \<in> set (doe_price_entries ft line reg dat s)"
  shows "in_fuel_price_range (price r)"
proof (cases "parseFloat s")
  case (Fin x)
  with assms show ?thesis
    by (auto simp: doe_price_entries_def doe_entry_def in_fuel_price_range_def js_cmp_defs Let_def
             split: if_splits)
qed (use assms in \<open>auto simp: doe_price_entries_def js_cmp_defs Let_def split: if_splits\<close>)

lemma doe_prices_checked:
  "r \<in> set (doe_lines cur ls reg dat) \<Longrightarrow> in_fuel_price_range (price r)"
proof (induction ls arbitrary: cur)
  case Nil
  then show ?case by simp
next
  case (Cons l ls)
  from Cons.prems have
    "(\<exists>cur'. r \<in> set (doe_lines cur' ls reg dat))
     \<or> (\<exists>ft s. r \<in> set (doe_price_entries ft (trim l) reg dat s))"
    by (auto simp: Let_def split: if_splits option.splits)
  then show ?case using Cons.IH doe_price_entries_ok by blast
qed

text \<open>
  Claim C2.  The claim is that no parser gives an entry whose price is not positive.  The
  generic parser and the DOE parser test the price; the DTI parser does not: the line
  \<^verbatim>\<open>Sample item 0.00\<close> matches its fourth pattern and gives an entry with the price 0.
\<close>

theorem dti_entry_with_price_zero:
  "dti_parse_text ''Sample item 0.00'' =
     [\<lparr>commodity = ''Sample item'', unit = ''unit'', source = ''DTI'', region = ''National'',
       date = ''2025-02-01'', category = None, hasRange = None, filename = None,
       price = Fin 0, fuelType = None, brand = None\<rparr>]"
  by (simp add: dti_parse_text_def dti_line_def dti1 dti_floats dti_fields_def tmpl_def truthy_def grp_def
        parseFloat_grp_def DTI_SOURCE_def DTI_REGION_def DTI_DATE_def Let_def)

subsection \<open>A batch with a file that cannot be read\<close>

lemma parseDAPDF_unreadable:
  "read_pdf_text rd pdf p = Inl e \<Longrightarrow> parseDAPDF rd pdf p reg = Some (Inl e)"
  by (simp add: parseDAPDF_def)

lemma parseDOEPDF_unreadable:
  "read_pdf_text rd pdf p = Inl e \<Longrightarrow> parseDOEPDF rd pdf p reg = Inl e"
  by (simp add: parseDOEPDF_def)

text \<open>
  Claim C9.  In a batch of three files of which the second cannot be read or decoded, and
  the first and the third can, the batch returns, its entries are those of the first file
  followed by those of the third (each with the name of its file), and exactly one error
  line is printed, for the second file.  This holds for \<open>parseAllDAPDFs\<close> and for
  \<open>parseAllDOEPDFs\<close>.
\<close>

theorem batch_leaves_out_failed_file:
  "(read_pdf_text rd pdf (pdf_path f2) = Inl e
      \<and> parseDAPDF rd pdf (pdf_path f1) (pdf_region f1) = Some (Inr r1)
      \<and> parseDAPDF rd pdf (pdf_path f3) (pdf_region f3) = Some (Inr r3)
    \<longrightarrow> (\<exists>b. parseAllDAPDFs rd pdf [f1, f2, f3] = Some b
              \<and> allResults b = map (with_filename f1) (results r1) @ map (with_filename f3) (results r3)
              \<and> allPriceRanges b = map (with_filename f1) (priceRanges r1) @ map (with_filename f3) (priceRanges r3)
              \<and> filter is_error_line (da_console b) = [ErrorProcessing (pdf_filename f2) e]))
   \<and> (read_pdf_text rd pdf (pdf_path f2) = Inl e
      \<and> parseDOEPDF rd pdf (pdf_path f1) (pdf_region f1) = Inr rs1
      \<and> parseDOEPDF rd pdf (pdf_path f3) (pdf_region f3) = Inr rs3
    \<longrightarrow> doe_allResults (parseAllDOEPDFs rd pdf [f1, f2, f3]) = map (with_filename f1) rs1 @ map (with_filename f3) rs3
        \<and> filter is_error_line (doe_console (parseAllDOEPDFs rd pdf [f1, f2, f3])) = [ErrorProcessing (pdf_filename f2) e])"
proof (intro conjI impI)
  assume a: "read_pdf_text rd pdf (pdf_path f2) = Inl e
      \<and> parseDAPDF rd pdf (pdf_path f1) (pdf_region f1) = Some (Inr r1)
      \<and> parseDAPDF rd pdf (pdf_path f3) (pdf_region f3) = Some (Inr r3)"
  then have "parseDAPDF rd pdf (pdf_path f2) (pdf_region f2) = Some (Inl e)"
    by (simp add: parseDAPDF_unreadable)
  with a show "\<exists>b. parseAllDAPDFs rd pdf [f1, f2, f3] = Some b
              \<and> allResults b = map (with_filename f1) (results r1) @ map (with_filename f3) (results r3)
              \<and> allPriceRanges b = map (with_filename f1) (priceRanges r1) @ map (with_filename f3) (priceRanges r3)
              \<and> filter is_error_line (da_console b) = [ErrorProcessing (pdf_filename f2) e]"
    by (simp add: parseAllDAPDFs_def)
next
  assume a: "read_pdf_text rd pdf (pdf_path f2) = Inl e
      \<and> parseDOEPDF rd pdf (pdf_path f1) (pdf_region f1) = Inr rs1
      \<and> parseDOEPDF rd pdf (pdf_path f3) (pdf_region f3) = Inr rs3"
  then have b: "parseDOEPDF rd pdf (pdf_path f2) (pdf_region f2) = Inl e"
    by (simp add: parseDOEPDF_unreadable)
  with a show "doe_allResults (parseAllDOEPDFs rd pdf [f1, f2, f3]) = map (with_filename f1) rs1 @ map (with_filename f3) rs3"
    by (simp add: parseAllDOEPDFs_def Let_def)
  from a b show "filter is_error_line (doe_console (parseAllDOEPDFs rd pdf [f1, f2, f3])) = [ErrorProcessing (pdf_filename f2) e]"
    by (simp add: parseAllDOEPDFs_def Let_def)
qed

text \<open>Three files of Region I, the second of which is missing.\<close>

definition missing_b_read :: reader where
  "missing_b_read p = (if p = ''dir/b.pdf'' then Inl ''ENOENT'' else Inr ''%PDF'')"

definition rice_pdf :: reader where
  "rice_pdf buf = Inr ''Rice 45.50-55.75''"

lemma sample_files:
  "basename ''dir/a.pdf'' = ''a.pdf''" "basename ''dir/c.pdf'' = ''c.pdf''"
  "da_extractDateFromFilename ''a.pdf'' = Some ''2025-06-26''"
  "da_extractDateFromFilename ''c.pdf'' = Some ''2025-06-26''"
  "doe_extractDateFromFilename ''a.pdf'' = Some ''2025-06-17''"
  "doe_extractDateFromFilename ''c.pdf'' = Some ''2025-06-17''"
  "split_lines ''Rice 45.50-55.75'' = [''Rice 45.50-55.75'']"
  "str_match ''Rice 45.50-55.75'' fuel_header_re True = None"
  by code_simp+

lemma sample_parse_da:
  "parseDAPDF missing_b_read rice_pdf ''dir/a.pdf'' ''Region I'' =
     Some (Inr \<lparr>results =
             [\<lparr>commodity = ''Rice'', unit = ''per kg'', source = ''DA'', region = ''Region I'',
               date = ''2025-06-26'', category = Some ''rice'', hasRange = Some False, filename = None,
               price = Fin 45.5, fuelType = None, brand = None\<rparr>],
           priceRanges = []\<rparr>)"
  "parseDAPDF missing_b_read rice_pdf ''dir/c.pdf'' ''Region I'' =
     Some (Inr \<lparr>results =
             [\<lparr>commodity = ''Rice'', unit = ''per kg'', source = ''DA'', region = ''Region I'',
               date = ''2025-06-26'', category = Some ''rice'', hasRange = Some False, filename = None,
               price = Fin 45.5, fuelType = None, brand = None\<rparr>],
           priceRanges = []\<rparr>)"
  "read_pdf_text missing_b_read rice_pdf ''dir/b.pdf'' = Inl (Error ''Could not read PDF file: ENOENT'')"
  "parseDOEPDF missing_b_read rice_pdf ''dir/a.pdf'' ''Luzon'' = Inr []"
  "parseDOEPDF missing_b_read rice_pdf ''dir/c.pdf'' ''Luzon'' = Inr []"
  by (simp_all add: parseDAPDF_def parseDOEPDF_def read_pdf_text_def missing_b_read_def rice_pdf_def sample_files
        da_extractPricesFromText_def doe_extractPricesFromText_def generic_range_line generic1(1) truthy_def Let_def)


definition fuel_pdf :: reader where
  "fuel_pdf buf = Inr ''RON 95\<newline>56.49''"

lemma fuel_pdf_lines:
  "split_lines ''RON 95\<newline>56.49'' = [''RON 95'', ''56.49'']"
  by code_simp

lemma fuel_pdf_entries:
  "doe_lines None [''RON 95'', ''56.49''] reg dat = [doe_entry ''RON 95'' reg dat (Fin 56.49)]"
  by (simp add: doe1 doe_floats doe_price_entries_def tmpl_def truthy_def grp_def js_cmp_defs Let_def)

lemma fuel_pdf_text:
  "doe_extractPricesFromText ''RON 95\<newline>56.49'' reg dat = [doe_entry ''RON 95'' reg dat (Fin 56.49)]"
  by (simp only: doe_extractPricesFromText_def fuel_pdf_lines fuel_pdf_entries)

lemma sample_parse_doe:
  "parseDOEPDF missing_b_read fuel_pdf ''dir/a.pdf'' ''Luzon'' =
     Inr [doe_entry ''RON 95'' ''Luzon'' ''2025-06-17'' (Fin 56.49)]"
  "parseDOEPDF missing_b_read fuel_pdf ''dir/c.pdf'' ''Luzon'' =
     Inr [doe_entry ''RON 95'' ''Luzon'' ''2025-06-17'' (Fin 56.49)]"
  "read_pdf_text missing_b_read fuel_pdf ''dir/b.pdf'' = Inl (Error ''Could not read PDF file: ENOENT'')"
  by (simp_all add: parseDOEPDF_def read_pdf_text_def missing_b_read_def fuel_pdf_def sample_files
        fuel_pdf_text)

theorem batch_leaves_out_failed_file_witness:
  "read_pdf_text missing_b_read rice_pdf ''dir/b.pdf'' = Inl (Error ''Could not read PDF file: ENOENT'')
   \<and> parseDAPDF missing_b_read rice_pdf ''dir/a.pdf'' ''Region I'' =
       Some (Inr \<lparr>results =
             [\<lparr>commodity = ''Rice'', unit = ''per kg'', source = ''DA'', region = ''Region I'',
               date = ''2025-06-26'', category = Some ''rice'', hasRange = Some False, filename = None,
               price = Fin 45.5, fuelType = None, brand = None\<rparr>],
           priceRanges = []\<rparr>)
   \<and> parseDAPDF missing_b_read rice_pdf ''dir/c.pdf'' ''Region I'' =
       Some (Inr \<lparr>results =
             [\<lparr>commodity = ''Rice'', unit = ''per kg'', source = ''DA'', region = ''Region I'',
               date = ''2025-06-26'', category = Some ''rice'', hasRange = Some False, filename = None,
               price = Fin 45.5, fuelType = None, brand = None\<rparr>],
           priceRanges = []\<rparr>)
   \<and> (\<exists>b. parseAllDAPDFs missing_b_read rice_pdf
              [\<lparr>pdf_path = ''dir/a.pdf'', pdf_filename = ''a.pdf'', pdf_region = ''Region I''\<rparr>,
               \<lparr>pdf_path = ''dir/b.pdf'', pdf_filename = ''b.pdf'', pdf_region = ''Region I''\<rparr>,
               \<lparr>pdf_path = ''dir/c.pdf'', pdf_filename = ''c.pdf'', pdf_region = ''Region I''\<rparr>] = Some b
         \<and> allResults b =
             [\<lparr>commodity = ''Rice'', unit = ''per kg'', source = ''DA'', region = ''Region I'',
               date = ''2025-06-26'', category = Some ''rice'', hasRange = Some False, filename = Some ''a.pdf'',
               price = Fin 45.5, fuelType = None, brand = None\<rparr>,
              \<lparr>commodity = ''Rice'', unit = ''per kg'', source = ''DA'', region = ''Region I'',
               date = ''2025-06-26'', category = Some ''rice'', hasRange = Some False, filename = Some ''c.pdf'',
               price = Fin 45.5, fuelType = None, brand = None\<rparr>]
         \<and> allPriceRanges b = []
         \<and> filter is_error_line (da_console b) =
             [ErrorProcessing ''b.pdf'' (Error ''Could not read PDF file: ENOENT'')])
   \<and> read_pdf_text missing_b_read fuel_pdf ''dir/b.pdf'' = Inl (Error ''Could not read PDF file: ENOENT'')
   \<and> parseDOEPDF missing_b_read fuel_pdf ''dir/a.pdf'' ''Luzon'' =
       Inr [doe_entry ''RON 95'' ''Luzon'' ''2025-06-17'' (Fin 56.49)]
   \<and> parseDOEPDF missing_b_read fuel_pdf ''dir/c.pdf'' ''Luzon'' =
       Inr [doe_entry ''RON 95'' ''Luzon'' ''2025-06-17'' (Fin 56.49)]
   \<and> doe_allResults (parseAllDOEPDFs missing_b_read fuel_pdf
          [\<lparr>pdf_path = ''dir/a.pdf'', pdf_filename = ''a.pdf'', pdf_region = ''Luzon''\<rparr>,
           \<lparr>pdf_path = ''dir/b.pdf'', pdf_filename = ''b.pdf'', pdf_region = ''Luzon''\<rparr>,
           \<lparr>pdf_path = ''dir/c.pdf'', pdf_filename = ''c.pdf'', pdf_region = ''Luzon''\<rparr>]) =
       [(doe_entry ''RON 95'' ''Luzon'' ''2025-06-17'' (Fin 56.49))\<lparr>filename := Some ''a.pdf''\<rparr>,
        (doe_entry ''RON 95'' ''Luzon'' ''2025-06-17'' (Fin 56.49))\<lparr>filename := Some ''c.pdf''\<rparr>]
   \<and> filter is_error_line (doe_console (parseAllDOEPDFs missing_b_read fuel_pdf
          [\<lparr>pdf_path = ''dir/a.pdf'', pdf_filename = ''a.pdf'', pdf_region = ''Luzon''\<rparr>,
           \<lparr>pdf_path = ''dir/b.pdf'', pdf_filename = ''b.pdf'', pdf_region = ''Luzon''\<rparr>,
           \<lparr>pdf_path = ''dir/c.pdf'', pdf_filename = ''c.pdf'', pdf_region = ''Luzon''\<rparr>])) =
       [ErrorProcessing ''b.pdf'' (Error ''Could not read PDF file: ENOENT'')]"
proof -
  let ?g1 = "\<lparr>pdf_path = ''dir/a.pdf'', pdf_filename = ''a.pdf'', pdf_region = ''Luzon''\<rparr>"
  let ?g2 = "\<lparr>pdf_path = ''dir/b.pdf'', pdf_filename = ''b.pdf'', pdf_region = ''Luzon''\<rparr>"
  let ?g3 = "\<lparr>pdf_path = ''dir/c.pdf'', pdf_filename = ''c.pdf'', pdf_region = ''Luzon''\<rparr>"
  let ?e = "doe_entry ''RON 95'' ''Luzon'' ''2025-06-17'' (Fin 56.49)"
  have hd: "read_pdf_text missing_b_read fuel_pdf (pdf_path ?g2) = Inl (Error ''Could not read PDF file: ENOENT'')
      \<and> parseDOEPDF missing_b_read fuel_pdf (pdf_path ?g1) (pdf_region ?g1) = Inr [?e]
      \<and> parseDOEPDF missing_b_read fuel_pdf (pdf_path ?g3) (pdf_region ?g3) = Inr [?e]"
    by (simp add: sample_parse_doe)
  from batch_leaves_out_failed_file[of missing_b_read fuel_pdf ?g2 "Error ''Could not read PDF file: ENOENT''"
      ?g1 "\<lparr>results = [], priceRanges = []\<rparr>" ?g3 "\<lparr>results = [], priceRanges = []\<rparr>" "[?e]" "[?e]"]
  have "read_pdf_text missing_b_read fuel_pdf (pdf_path ?g2) = Inl (Error ''Could not read PDF file: ENOENT'')
      \<and> parseDOEPDF missing_b_read fuel_pdf (pdf_path ?g1) (pdf_region ?g1) = Inr [?e]
      \<and> parseDOEPDF missing_b_read fuel_pdf (pdf_path ?g3) (pdf_region ?g3) = Inr [?e]
    \<longrightarrow> doe_allResults (parseAllDOEPDFs missing_b_read fuel_pdf [?g1, ?g2, ?g3])
          = map (with_filename ?g1) [?e] @ map (with_filename ?g3) [?e]
        \<and> filter is_error_line (doe_console (parseAllDOEPDFs missing_b_read fuel_pdf [?g1, ?g2, ?g3]))
          = [ErrorProcessing (pdf_filename ?g2) (Error ''Could not read PDF file: ENOENT'')]"
    by (rule conjunct2)
  from this[rule_format, OF hd] have
    d1: "doe_allResults (parseAllDOEPDFs missing_b_read fuel_pdf [?g1, ?g2, ?g3]) =
           [?e\<lparr>filename := Some ''a.pdf''\<rparr>, ?e\<lparr>filename := Some ''c.pdf''\<rparr>]"
    and d2: "filter is_error_line (doe_console (parseAllDOEPDFs missing_b_read fuel_pdf [?g1, ?g2, ?g3])) =
           [ErrorProcessing ''b.pdf'' (Error ''Could not read PDF file: ENOENT'')]"
    by (simp_all add: with_filename_def)
  let ?f1 = "\<lparr>pdf_path = ''dir/a.pdf'', pdf_filename = ''a.pdf'', pdf_region = ''Region I''\<rparr>"
  let ?f2 = "\<lparr>pdf_path = ''dir/b.pdf'', pdf_filename = ''b.pdf'', pdf_region = ''Region I''\<rparr>"
  let ?f3 = "\<lparr>pdf_path = ''dir/c.pdf'', pdf_filename = ''c.pdf'', pdf_region = ''Region I''\<rparr>"
  let ?r = "\<lparr>results =
             [\<lparr>commodity = ''Rice'', unit = ''per kg'', source = ''DA'', region = ''Region I'',
               date = ''2025-06-26'', category = Some ''rice'', hasRange = Some False, filename = None,
               price = Fin 45.5, fuelType = None, brand = None\<rparr>],
           priceRanges = []\<rparr>"
  have h: "read_pdf_text missing_b_read rice_pdf (pdf_path ?f2) = Inl (Error ''Could not read PDF file: ENOENT'')
      \<and> parseDAPDF missing_b_read rice_pdf (pdf_path ?f1) (pdf_region ?f1) = Some (Inr ?r)
      \<and> parseDAPDF missing_b_read rice_pdf (pdf_path ?f3) (pdf_region ?f3) = Some (Inr ?r)"
    by (simp add: sample_parse_da)
  from batch_leaves_out_failed_file[of missing_b_read rice_pdf ?f2 "Error ''Could not read PDF file: ENOENT''" ?f1 ?r ?f3 ?r "[]" "[]"]
  have "read_pdf_text missing_b_read rice_pdf (pdf_path ?f2) = Inl (Error ''Could not read PDF file: ENOENT'')
      \<and> parseDAPDF missing_b_read rice_pdf (pdf_path ?f1) (pdf_region ?f1) = Some (Inr ?r)
      \<and> parseDAPDF missing_b_read rice_pdf (pdf_path ?f3) (pdf_region ?f3) = Some (Inr ?r)
    \<longrightarrow> (\<exists>b. parseAllDAPDFs missing_b_read rice_pdf [?f1, ?f2, ?f3] = Some b
              \<and> allResults b = map (with_filename ?f1) (results ?r) @ map (with_filename ?f3) (results ?r)
              \<and> allPriceRanges b = map (with_filename ?f1) (priceRanges ?r) @ map (with_filename ?f3) (priceRanges ?r)
              \<and> filter is_error_line (da_console b) = [ErrorProcessing (pdf_filename ?f2) (Error ''Could not read PDF file: ENOENT'')])"
    by (rule conjunct1)
  from this[rule_format, OF h] obtain b where
    b: "parseAllDAPDFs missing_b_read rice_pdf [?f1, ?f2, ?f3] = Some b"
    "allResults b = map (with_filename ?f1) (results ?r) @ map (with_filename ?f3) (results ?r)"
    "allPriceRanges b = map (with_filename ?f1) (priceRanges ?r) @ map (with_filename ?f3) (priceRanges ?r)"
    "filter is_error_line (da_console b) = [ErrorProcessing (pdf_filename ?f2) (Error ''Could not read PDF file: ENOENT'')]"
    by blast
  from b(2) have r: "allResults b =
             [\<lparr>commodity = ''Rice'', unit = ''per kg'', source = ''DA'', region = ''Region I'',
               date = ''2025-06-26'', category = Some ''rice'', hasRange = Some False, filename = Some ''a.pdf'',
               price = Fin 45.5, fuelType = None, brand = None\<rparr>,
              \<lparr>commodity = ''Rice'', unit = ''per kg'', source = ''DA'', region = ''Region I'',
               date = ''2025-06-26'', category = Some ''rice'', hasRange = Some False, filename = Some ''c.pdf'',
               price = Fin 45.5, fuelType = None, brand = None\<rparr>]"
    by (simp add: with_filename_def)
  from b(3) have p: "allPriceRanges b = []" by simp
  from b(4) have c: "filter is_error_line (da_console b) =
             [ErrorProcessing ''b.pdf'' (Error ''Could not read PDF file: ENOENT'')]" by simp
  from b(1) r p c have "\<exists>b. parseAllDAPDFs missing_b_read rice_pdf [?f1, ?f2, ?f3] = Some b
         \<and> allResults b =
             [\<lparr>commodity = ''Rice'', unit = ''per kg'', source = ''DA'', region = ''Region I'',
               date = ''2025-06-26'', category = Some ''rice'', hasRange = Some False, filename = Some ''a.pdf'',
               price = Fin 45.5, fuelType = None, brand = None\<rparr>,
              \<lparr>commodity = ''Rice'', unit = ''per kg'', source = ''DA'', region = ''Region I'',
               date = ''2025-06-26'', category = Some ''rice'', hasRange = Some False, filename = Some ''c.pdf'',
               price = Fin 45.5, fuelType = None, brand = None\<rparr>]
         \<and> allPriceRanges b = []
         \<and> filter is_error_line (da_console b) =
             [ErrorProcessing ''b.pdf'' (Error ''Could not read PDF file: ENOENT'')]"
    by blast
  with sample_parse_da(3,1,2) sample_parse_doe(3,1,2) d1 d2 show ?thesis by (intro conjI)
qed

subsection \<open>What the DTI entry point writes\<close>

text \<open>
  Claim C10.  When the bulletin gives more than ten entries, the count that is printed is
  the count of all of them, and the file, if it is written, holds the first ten: never all
  of them.
\<close>

theorem dti_output_holds_first_ten:
  "parseDTIPDF rd pdf pdfPath = Inr entries \<and> 10 < length entries \<longrightarrow>
     Found (length entries) \<in> set (dti_console (dti_main rd pdf writeFileSync pdfPath))
     \<and> (writeFileSync (take 10 entries) = None \<longrightarrow>
          dti_written (dti_main rd pdf writeFileSync pdfPath) = Some (take 10 entries))
     \<and> (\<forall>w. dti_written (dti_main rd pdf writeFileSync pdfPath) = Some w \<longrightarrow>
          w = take 10 entries \<and> length w = 10 \<and> w \<noteq> entries)"
  by (auto simp: dti_main_def Let_def split: option.splits)

text \<open>A bulletin of eleven lines.\<close>

definition salt_entry :: price_record where
  "salt_entry =
     \<lparr>commodity = ''Salt'', unit = ''1kg'', source = ''DTI'', region = ''National'',
      date = ''2025-02-01'', category = None, hasRange = None, filename = None,
      price = Fin 25, fuelType = None, brand = None\<rparr>"

definition eleven_lines :: string where
  "eleven_lines = ''Salt 1kg 25.00\<newline>Salt 1kg 25.00\<newline>Salt 1kg 25.00\<newline>Salt 1kg 25.00\<newline>Salt 1kg 25.00\<newline>Salt 1kg 25.00\<newline>Salt 1kg 25.00\<newline>Salt 1kg 25.00\<newline>Salt 1kg 25.00\<newline>Salt 1kg 25.00\<newline>Salt 1kg 25.00''"

lemma salt1:
  "split_lines eleven_lines = replicate 11 ''Salt 1kg 25.00''"
  "trim ''Salt 1kg 25.00'' = ''Salt 1kg 25.00''"
  "collapse_spaces (trim ''Salt'') = ''Salt''"
  "toLowerCase ''Salt'' = ''salt''"
  "\<not> str_includes ''salt'' ''page''"
  "\<not> str_includes ''salt'' ''srp''"
  "\<not> str_includes ''salt'' ''bulletin''"
  "trim ''1kg'' = ''1kg''"
  "first_match LINE_PATTERNS 0 True ''Salt 1kg 25.00'' =
     Some (0, \<lparr>mstart = 0, mend = 14, mtext = ''Salt 1kg 25.00'', mrest = [],
               mcaps = [(3, ''25.00''), (2, ''1kg''), (1, ''Salt'')]\<rparr>)"
  by code_simp+

lemma salt_floats: "parseFloat ''25.00'' = Fin 25"
  by (simp add: num_defs)

lemma salt_line: "dti_line ''Salt 1kg 25.00'' = [salt_entry]"
  by (simp add: dti_line_def salt1 salt_floats dti_fields_def tmpl_def truthy_def grp_def parseFloat_grp_def
        DTI_SOURCE_def DTI_REGION_def DTI_DATE_def salt_entry_def Let_def)

lemma salt_lines: "dti_lines (replicate n ''Salt 1kg 25.00'') = replicate n salt_entry"
  by (induction n) (simp_all add: salt1 salt_line Let_def)

lemma salt_parse: "parseDTIPDF (\<lambda>p. Inr ''%PDF'') (\<lambda>b. Inr eleven_lines) ''bulletin.pdf'' = Inr (replicate 11 salt_entry)"
  by (simp add: parseDTIPDF_def read_pdf_text_def dti_parse_text_def salt1(1) salt_lines)

theorem dti_output_holds_first_ten_witness:
  "parseDTIPDF (\<lambda>p. Inr ''%PDF'') (\<lambda>b. Inr eleven_lines) ''bulletin.pdf'' = Inr (replicate 11 salt_entry)
   \<and> 10 < length (replicate 11 salt_entry)
   \<and> Found 11 \<in> set (dti_console (dti_main (\<lambda>p. Inr ''%PDF'') (\<lambda>b. Inr eleven_lines) (\<lambda>js. None) ''bulletin.pdf''))
   \<and> dti_written (dti_main (\<lambda>p. Inr ''%PDF'') (\<lambda>b. Inr eleven_lines) (\<lambda>js. None) ''bulletin.pdf'')
       = Some (replicate 10 salt_entry)"
proof -
  let ?run = "dti_main (\<lambda>p. Inr ''%PDF'') (\<lambda>b. Inr eleven_lines) (\<lambda>js. None) ''bulletin.pdf''"
  have h1: "parseDTIPDF (\<lambda>p. Inr ''%PDF'') (\<lambda>b. Inr eleven_lines) ''bulletin.pdf'' = Inr (replicate 11 salt_entry)"
    by (rule salt_parse)
  have h2: "10 < length (replicate 11 salt_entry)"
    by simp
  have t10: "take 10 (replicate 11 salt_entry) = replicate 10 salt_entry"
    by simp
  have l11: "length (replicate 11 salt_entry) = 11"
    by (simp only: length_replicate)
  from dti_output_holds_first_ten[of "\<lambda>p. Inr ''%PDF''" "\<lambda>b. Inr eleven_lines" "''bulletin.pdf''"
      "replicate 11 salt_entry" "\<lambda>js. None"] h1 h2
  have c: "Found (length (replicate 11 salt_entry)) \<in> set (dti_console ?run)
     \<and> (None = (None :: string option) \<longrightarrow> dti_written ?run = Some (take 10 (replicate 11 salt_entry)))
     \<and> (\<forall>w. dti_written ?run = Some w \<longrightarrow>
          w = take 10 (replicate 11 salt_entry) \<and> length w = 10 \<and> w \<noteq> replicate 11 salt_entry)"
    by blast
  from c have c1: "Found 11 \<in> set (dti_console ?run)"
    by (simp only: l11)
  from c have "dti_written ?run = Some (take 10 (replicate 11 salt_entry))"
    by blast
  then have c2: "dti_written ?run = Some (replicate 10 salt_entry)"
    by (simp only: t10)
  from h1 h2 c1 c2 show ?thesis by (intro conjI)
qed

end
